theory Spec2Isabelle
  imports Complex_Main "HOL-Library.Product_Lexorder"
begin

section \<open>Common vocabulary\<close>

text \<open>
  Record ids are strings (Prisma generates them), instants are milliseconds since the
  epoch, and a JavaScript \<^verbatim>\<open>number\<close> is modelled as an exact rational: sums, products
  and comparisons are those of the source, IEEE-754 rounding, NaN and the infinities are
  not modelled.
\<close>

type_synonym ident = string
type_synonym instant = int
type_synonym number = rat

text \<open>The exceptions the services throw, with their message.\<close>

datatype exn =
    BadRequestException string
  | NotFoundException string
  | PrismaError string
  | ProviderError string
  | WebhookError string
  | TypeError string

text \<open>JavaScript truthiness of an optional string: \<^verbatim>\<open>undefined\<close> and the empty string
  are falsy.\<close>

definition truthy_str :: "string option \<Rightarrow> bool" where
  "truthy_str s = (case s of None \<Rightarrow> False | Some v \<Rightarrow> v \<noteq> [])"

section \<open>InvitationsService.canRegister\<close>

record invitation_code =
  ic_code :: string
  ic_usedAt :: "instant option"
  ic_expiresAt :: "instant option"

record register_result =
  allowed :: bool
  requiresCode :: bool
  message :: "string option"

text \<open>\<^verbatim>\<open>prisma.invitationCode.findUnique({ where: { code } })\<close>.\<close>

definition findInvitation :: "invitation_code list \<Rightarrow> string \<Rightarrow> invitation_code option" where
  "findInvitation tbl c = find (\<lambda>i. ic_code i = c) tbl"

text \<open>
  \<^verbatim>\<open>canRegister\<close>: \<^verbatim>\<open>userCount\<close> is \<^verbatim>\<open>prisma.user.count()\<close>, \<^verbatim>\<open>now\<close> is
  \<^verbatim>\<open>new Date()\<close> at the expiry test. The checks are in the order of the source.
\<close>

definition canRegister ::
  "nat \<Rightarrow> invitation_code list \<Rightarrow> instant \<Rightarrow> string option \<Rightarrow> register_result" where
  "canRegister userCount tbl now invitationCode =
     (if userCount = 0 then \<lparr>allowed = True, requiresCode = False, message = None\<rparr>
      else if \<not> truthy_str invitationCode then
        \<lparr>allowed = False, requiresCode = True,
         message = Some ''An invitation code is required to register''\<rparr>
      else
        (case findInvitation tbl (the invitationCode) of
           None \<Rightarrow>
             \<lparr>allowed = False, requiresCode = True, message = Some ''Invalid invitation code''\<rparr>
         | Some invitation \<Rightarrow>
             if ic_usedAt invitation \<noteq> None then
               \<lparr>allowed = False, requiresCode = True,
                message = Some ''This invitation code has already been used''\<rparr>
             else if (case ic_expiresAt invitation of None \<Rightarrow> False | Some e \<Rightarrow> e < now) then
               \<lparr>allowed = False, requiresCode = True,
                message = Some ''This invitation code has expired''\<rparr>
             else \<lparr>allowed = True, requiresCode = True, message = None\<rparr>))"

text \<open>The claim's reading of a usable code: it was supplied, it exists, it has not been
  used and it has no expiry earlier than the current time.\<close>

definition code_missing :: "string option \<Rightarrow> bool" where
  "code_missing c = (c = None \<or> c = Some [])"

definition code_unknown :: "invitation_code list \<Rightarrow> string option \<Rightarrow> bool" where
  "code_unknown tbl c = (\<not> code_missing c \<and> findInvitation tbl (the c) = None)"

definition code_used :: "invitation_code list \<Rightarrow> string option \<Rightarrow> bool" where
  "code_used tbl c =
     (\<not> code_missing c \<and>
      (case findInvitation tbl (the c) of None \<Rightarrow> False | Some i \<Rightarrow> ic_usedAt i \<noteq> None))"

definition code_expired :: "invitation_code list \<Rightarrow> instant \<Rightarrow> string option \<Rightarrow> bool" where
  "code_expired tbl now c =
     (\<not> code_missing c \<and>
      (case findInvitation tbl (the c) of
         None \<Rightarrow> False
       | Some i \<Rightarrow> ic_usedAt i = None \<and>
           (case ic_expiresAt i of None \<Rightarrow> False | Some e \<Rightarrow> e < now)))"

definition code_usable :: "invitation_code list \<Rightarrow> instant \<Rightarrow> string option \<Rightarrow> bool" where
  "code_usable tbl now c =
     (\<not> code_missing c \<and>
      (case findInvitation tbl (the c) of
         None \<Rightarrow> False
       | Some i \<Rightarrow> ic_usedAt i = None \<and>
           (case ic_expiresAt i of None \<Rightarrow> True | Some e \<Rightarrow> \<not> e < now)))"

section \<open>Records of the database\<close>

text \<open>
  The tables the services below read and write, with the columns those services touch.
  Items are owned by their invoice or receipt and are kept inside it, in creation order.
  The Prisma schema is not part of the sources at hand: enum values are those the code
  compares against.
\<close>

datatype invoice_status = PAID | UNPAID | OVERDUE | INVOICE_SENT

datatype quote_status = DRAFT | SENT | SIGNED | EXPIRED

record company =
  co_id :: ident
  co_exemptVat :: bool
  co_country :: "string option"
  co_currency :: string

record client =
  cl_id :: ident
  cl_name :: string
  cl_contactEmail :: "string option"
  cl_currency :: "string option"
  cl_isActive :: bool

record invoice_item =
  it_id :: ident
  it_description :: string
  it_quantity :: number
  it_unitPrice :: number
  it_vatRate :: number
  it_type :: string
  it_order :: number

record invoice =
  inv_id :: ident
  inv_clientId :: ident
  inv_companyId :: ident
  inv_quoteId :: "ident option"
  inv_recurringInvoiceId :: "ident option"
  inv_status :: invoice_status
  inv_isActive :: bool
  inv_currency :: string
  inv_totalHT :: number
  inv_totalVAT :: number
  inv_totalTTC :: number
  inv_createdAt :: instant
  inv_dueDate :: instant
  inv_notes :: "string option"
  inv_paymentMethod :: "string option"
  inv_paymentMethodId :: "ident option"
  inv_paymentDetails :: "string option"
  inv_items :: "invoice_item list"

record receipt_item =
  ri_id :: ident
  ri_invoiceItemId :: ident
  ri_amountPaid :: number

record receipt =
  rc_id :: ident
  rc_invoiceId :: ident
  rc_totalPaid :: number
  rc_createdAt :: instant
  rc_paymentMethodId :: "ident option"
  rc_paymentMethod :: "string option"
  rc_paymentDetails :: "string option"
  rc_items :: "receipt_item list"

record quote =
  q_id :: ident
  q_number :: string
  q_status :: quote_status
  q_clientId :: "ident option"
  q_companyId :: ident

record signature =
  sg_id :: ident
  sg_quoteId :: ident
  sg_isActive :: bool
  sg_otpCode :: "string option"
  sg_otpUsed :: bool
  sg_expiresAt :: "instant option"
  sg_signedAt :: "instant option"

record mail_template =
  mt_type :: string
  mt_companyId :: ident
  mt_subject :: string
  mt_body :: string

section \<open>Logging, webhooks and the state of the application\<close>

datatype log_level = DEBUG | INFO | WARN | ERROR | FATAL

record log_entry =
  lg_level :: log_level
  lg_message :: string
  lg_category :: string

datatype webhook_event =
    INVOICE_CREATED | INVOICE_UPDATED | INVOICE_DELETED
  | CLIENT_DELETED
  | RECEIPT_CREATED | RECEIPT_UPDATED | RECEIPT_DELETED
  | SIGNATURE_CREATED | SIGNATURE_COMPLETED

record webhook =
  wh_type :: string
  wh_url :: string
  wh_secret :: "string option"
  wh_events :: "webhook_event list"
  wh_companyId :: "ident option"

text \<open>The payload objects the services hand to the dispatcher.\<close>

datatype payload =
    InvoicePayload invoice "client option" "company option"
  | ClientPayload client
  | ReceiptPayload receipt "invoice option" "client option" "company option"
  | SignatureCreatedPayload ident ident "client option"
  | SignatureCompletedPayload ident ident instant

datatype driver =
    DiscordDriver | GenericDriver | MattermostDriver | RocketChatDriver
  | SlackDriver | TeamsDriver | ZapierDriver

text \<open>One call of a driver's \<^verbatim>\<open>send(url, { event, ...payload }, secret)\<close>.\<close>

record delivery =
  dl_driver :: driver
  dl_url :: string
  dl_event :: webhook_event
  dl_payload :: payload
  dl_secret :: "string option"

record mail =
  m_to :: string
  m_subject :: string
  m_html :: string
  m_signatureId :: ident

text \<open>
  What lies outside the sources at hand is a parameter: the drivers' \<^verbatim>\<open>supports\<close> and
  \<^verbatim>\<open>send\<close> (a \<^verbatim>\<open>send\<close> either resolves with a result or rejects), the mail
  transport, and the signing provider returned by the plugin registry
  (\<^verbatim>\<open>None\<close> when there is no provider with a \<^verbatim>\<open>requestSignature\<close> function).
\<close>

record 'r env =
  supports :: "driver \<Rightarrow> string \<Rightarrow> bool"
  driverSend :: "delivery \<Rightarrow> exn + 'r"
  sendMail :: "mail \<Rightarrow> exn option"
  requestSignature :: "(ident \<Rightarrow> exn + ident) option"

record world =
  companies :: "company list"
  clients :: "client list"
  invoices :: "invoice list"
  receipts :: "receipt list"
  quotes :: "quote list"
  signatures :: "signature list"
  mailTemplates :: "mail_template list"
  webhooks :: "webhook list"
  logs :: "log_entry list"
  outbox :: "delivery list"
  mailbox :: "mail list"

text \<open>
  Modelled from the spec: \<^verbatim>\<open>logger.service\<close> is not under the sources at hand. A
  call of \<^verbatim>\<open>logger.info\<close>, \<^verbatim>\<open>logger.warn\<close> or \<^verbatim>\<open>logger.error\<close> emits one log entry
  (level, message, category) and does nothing else; the \<^verbatim>\<open>details\<close> object is left out.
\<close>

definition logger :: "log_level \<Rightarrow> string \<Rightarrow> string \<Rightarrow> world \<Rightarrow> world" where
  "logger lvl msg cat w =
     w\<lparr>logs := logs w @ [\<lparr>lg_level = lvl, lg_message = msg, lg_category = cat\<rparr>]\<rparr>"

section \<open>WebhooksService and WebhookDispatcherService\<close>

definition drivers :: "driver list" where
  "drivers = [DiscordDriver, GenericDriver, MattermostDriver, RocketChatDriver,
              SlackDriver, TeamsDriver, ZapierDriver]"

text \<open>\<^verbatim>\<open>getDriver\<close>: \<^verbatim>\<open>Array.prototype.find\<close>, then the fallback to a fresh
  \<^verbatim>\<open>GenericDriver\<close>. The warning goes to the console and is not part of the state.\<close>

definition getDriver :: "'r env \<Rightarrow> string \<Rightarrow> driver" where
  "getDriver env type =
     (case find (\<lambda>d. supports env d type) drivers of
        None \<Rightarrow> GenericDriver
      | Some driver \<Rightarrow> driver)"

text \<open>\<^verbatim>\<open>Promise.all\<close>: the list of results when every promise resolves, a rejection
  otherwise (of the rejected promises, the first of the list is reported).\<close>

fun promise_all :: "(exn + 'r) list \<Rightarrow> exn + 'r list" where
  "promise_all [] = Inr []"
| "promise_all (Inl e # ps) = Inl e"
| "promise_all (Inr r # ps) = (case promise_all ps of Inl e \<Rightarrow> Inl e | Inr rs \<Rightarrow> Inr (r # rs))"

definition delivery_of :: "'r env \<Rightarrow> webhook_event \<Rightarrow> payload \<Rightarrow> webhook \<Rightarrow> delivery" where
  "delivery_of env event pl webhook =
     \<lparr>dl_driver = getDriver env (wh_type webhook), dl_url = wh_url webhook,
      dl_event = event, dl_payload = pl, dl_secret = wh_secret webhook\<rparr>"

text \<open>
  \<^verbatim>\<open>send\<close>: the callback of \<^verbatim>\<open>webhooks.map\<close> runs for every webhook up to its call of
  the driver's \<^verbatim>\<open>send\<close>, so every delivery is attempted (they are recorded in the
  outbox) before \<^verbatim>\<open>Promise.all\<close> settles.
\<close>

definition send ::
  "'r env \<Rightarrow> webhook list \<Rightarrow> webhook_event \<Rightarrow> payload \<Rightarrow> world \<Rightarrow> (exn + 'r list) \<times> world" where
  "send env hooks event pl w =
     (let ds = map (delivery_of env event pl) hooks;
          w1 = w\<lparr>outbox := outbox w @ ds\<rparr>
      in case promise_all (map (driverSend env) ds) of
           Inl e \<Rightarrow> (Inl e, w1)
         | Inr results \<Rightarrow> (Inr results, logger INFO ''Webhooks sent for event'' ''webhook'' w1))"

text \<open>\<^verbatim>\<open>payload?.company?.id || payload?.companyId || null\<close>: none of the payloads
  used here has a \<^verbatim>\<open>companyId\<close> property.\<close>

fun payload_companyId :: "payload \<Rightarrow> ident option" where
  "payload_companyId (InvoicePayload _ _ (Some c)) = (if co_id c = [] then None else Some (co_id c))"
| "payload_companyId (ReceiptPayload _ _ _ (Some c)) = (if co_id c = [] then None else Some (co_id c))"
| "payload_companyId _ = None"

definition dispatch ::
  "'r env \<Rightarrow> webhook_event \<Rightarrow> payload \<Rightarrow> world \<Rightarrow> (exn + unit) \<times> world" where
  "dispatch env event pl w =
     (let hooks = filter (\<lambda>h. event \<in> set (wh_events h) \<and>
                     (case payload_companyId pl of None \<Rightarrow> True
                      | Some c \<Rightarrow> wh_companyId h = Some c)) (webhooks w)
      in case send env hooks event pl w of
           (Inr _, w1) \<Rightarrow> (Inr (), logger INFO ''Webhook dispatched'' ''webhook-dispatcher'' w1)
         | (Inl e, w1) \<Rightarrow> (Inl e, logger ERROR ''Error dispatching webhook'' ''webhook-dispatcher'' w1))"

text \<open>The callers' \<^verbatim>\<open>try { await dispatch(..) } catch { logger.error(..) }\<close>.\<close>

definition try_dispatch ::
  "'r env \<Rightarrow> webhook_event \<Rightarrow> payload \<Rightarrow> string \<Rightarrow> string \<Rightarrow> world \<Rightarrow> world" where
  "try_dispatch env event pl msg cat w =
     (case dispatch env event pl w of
        (Inr _, w1) \<Rightarrow> w1
      | (Inl e, w1) \<Rightarrow> logger ERROR msg cat w1)"

section \<open>CronService\<close>

text \<open>\<^verbatim>\<open>runScheduledTasks\<close>: the body of the \<^verbatim>\<open>try\<close> is the one call of
  \<^verbatim>\<open>logger.info\<close>; with a logger that does not throw the \<^verbatim>\<open>catch\<close> is never entered.\<close>

definition runScheduledTasks :: "world \<Rightarrow> (exn + unit) \<times> world" where
  "runScheduledTasks w = (Inr (), logger INFO ''Scheduled tasks executed'' ''cron'' w)"

section \<open>Soft deletes\<close>

text \<open>\<^verbatim>\<open>prisma.invoice.update({ where: { id }, data: { isActive: false } })\<close> on the
  invoice table, and the same on the client table.\<close>

definition deactivateInvoice :: "ident \<Rightarrow> invoice list \<Rightarrow> invoice list" where
  "deactivateInvoice rid tbl = map (\<lambda>i. if inv_id i = rid then i\<lparr>inv_isActive := False\<rparr> else i) tbl"

definition deactivateClient :: "ident \<Rightarrow> client list \<Rightarrow> client list" where
  "deactivateClient rid tbl = map (\<lambda>c. if cl_id c = rid then c\<lparr>cl_isActive := False\<rparr> else c) tbl"

definition deleteInvoice :: "'r env \<Rightarrow> ident \<Rightarrow> world \<Rightarrow> (exn + invoice) \<times> world" where
  "deleteInvoice env rid w =
     (case find (\<lambda>i. inv_id i = rid) (invoices w) of
        None \<Rightarrow>
          (Inl (BadRequestException ''Invoice not found''),
           logger ERROR ''Invoice not found'' ''invoice'' w)
      | Some existingInvoice \<Rightarrow>
          (let w1 = w\<lparr>invoices := deactivateInvoice rid (invoices w)\<rparr>;
               deletedInvoice = existingInvoice\<lparr>inv_isActive := False\<rparr>;
               w2 = logger INFO ''Invoice deleted'' ''invoice'' w1;
               w3 = try_dispatch env INVOICE_DELETED
                      (InvoicePayload existingInvoice
                         (find (\<lambda>c. cl_id c = inv_clientId existingInvoice) (clients w))
                         (find (\<lambda>c. co_id c = inv_companyId existingInvoice) (companies w)))
                      ''Failed to dispatch INVOICE_DELETED webhook'' ''invoice'' w2
           in (Inr deletedInvoice, w3)))"

definition deleteClient :: "'r env \<Rightarrow> ident \<Rightarrow> world \<Rightarrow> (exn + client) \<times> world" where
  "deleteClient env rid w =
     (case find (\<lambda>c. cl_id c = rid) (clients w) of
        None \<Rightarrow>
          (Inl (BadRequestException ''Client not found''),
           logger ERROR ''Client not found'' ''client'' w)
      | Some existingClient \<Rightarrow>
          (let w1 = w\<lparr>clients := deactivateClient rid (clients w)\<rparr>;
               deletedClient = existingClient\<lparr>cl_isActive := False\<rparr>;
               w2 = logger INFO ''Client deleted'' ''client'' w1;
               w3 = try_dispatch env CLIENT_DELETED (ClientPayload existingClient)
                      ''Failed to dispatch CLIENT_DELETED webhook'' ''client'' w2
           in (Inr deletedClient, w3)))"

text \<open>The records of the database, as opposed to what the application emits: the state
  with its log, its webhook deliveries and its mails blanked.\<close>

definition tables :: "world \<Rightarrow> world" where
  "tables w = w\<lparr>logs := [], outbox := [], mailbox := []\<rparr>"

section \<open>ReceiptsService\<close>




text \<open>What the database and the runtime generate for a new row: its id, the current
  instant, and the ids of its items by position. A generated id that is already taken
  makes the insertion fail on the primary key.\<close>

record generated =
  g_id :: ident
  g_now :: instant
  g_itemId :: "nat \<Rightarrow> ident"





text \<open>In this service a failed dispatch is reported through the framework's console
  logger, which is not part of the state.\<close>

definition try_dispatch_console :: "'r env \<Rightarrow> webhook_event \<Rightarrow> payload \<Rightarrow> world \<Rightarrow> world" where
  "try_dispatch_console env event pl w = snd (dispatch env event pl w)"









section \<open>SignaturesService\<close>

text \<open>
  Modelled from the spec: the Prisma schema is not under the sources at hand, and
  \<^verbatim>\<open>prisma.signature.create\<close> is given the quote and the expiry only. A new signature is
  active (it is the one active signature of its quote afterwards), carries no OTP code,
  and is neither used nor signed.
\<close>

definition newSignature :: "generated \<Rightarrow> ident \<Rightarrow> signature" where
  "newSignature g quoteId =
     \<lparr>sg_id = g_id g, sg_quoteId = quoteId, sg_isActive = True, sg_otpCode = None,
      sg_otpUsed = False, sg_expiresAt = Some (g_now g + 30 * 24 * 60 * 60 * 1000),
      sg_signedAt = None\<rparr>"

text \<open>\<^verbatim>\<open>quote.client.contactEmail\<close> when the quote has a client with a non-empty email.\<close>

definition quoteClient :: "quote \<Rightarrow> world \<Rightarrow> client option" where
  "quoteClient q w =
     (case q_clientId q of None \<Rightarrow> None
      | Some c \<Rightarrow> find (\<lambda>x. cl_id x = c) (clients w))"

definition quoteContactEmail :: "quote \<Rightarrow> world \<Rightarrow> string option" where
  "quoteContactEmail q w =
     (case quoteClient q w of None \<Rightarrow> None
      | Some c \<Rightarrow> if truthy_str (cl_contactEmail c) then cl_contactEmail c else None)"

text \<open>\<^verbatim>\<open>prisma.signature.updateMany\<close> of \<^verbatim>\<open>sendSignatureEmail\<close>: the other active
  signatures of the quote become inactive.\<close>

definition deactivateOthers :: "ident \<Rightarrow> ident \<Rightarrow> signature list \<Rightarrow> signature list" where
  "deactivateOthers quoteId keep tbl =
     map (\<lambda>s. if sg_quoteId s = quoteId \<and> sg_isActive s \<and> sg_id s \<noteq> keep
               then s\<lparr>sg_isActive := False\<rparr> else s) tbl"

text \<open>
  \<^verbatim>\<open>sendSignatureEmail\<close>. With a signing provider the provider's answer is returned.
  Otherwise the signature is inserted first (the insertion fails on an unknown quote or
  a taken id), and the later checks throw with the signature already in the table. The
  placeholders of the mail template are not substituted in the model.
\<close>

definition sendSignatureEmail ::
  "'r env \<Rightarrow> generated \<Rightarrow> ident \<Rightarrow> world \<Rightarrow> (exn + ident) \<times> world" where
  "sendSignatureEmail env g quoteId w =
     (case requestSignature env of
        Some request \<Rightarrow> (request quoteId, w)
      | None \<Rightarrow>
          (case find (\<lambda>q. q_id q = quoteId) (quotes w) of
             None \<Rightarrow> (Inl (PrismaError ''Foreign key constraint violated: quoteId''), w)
           | Some quote \<Rightarrow>
               if g_id g \<in> set (map sg_id (signatures w))
               then (Inl (PrismaError ''Unique constraint failed on the fields: (id)''), w)
               else
                 (let signature = newSignature g quoteId;
                      w1 = w\<lparr>signatures := signatures w @ [signature]\<rparr>
                  in case quoteContactEmail quote w of
                       None \<Rightarrow>
                         (Inl (BadRequestException
                                 ''Quote not found or client information is missing.''),
                          logger ERROR ''Quote not found or client information is missing.''
                            ''signature'' w1)
                     | Some email \<Rightarrow>
                         (let w2 = w1\<lparr>signatures :=
                                        deactivateOthers quoteId (sg_id signature) (signatures w1)\<rparr>
                          in case find (\<lambda>t. mt_type t = ''SIGNATURE_REQUEST'' \<and>
                                             mt_companyId t = q_companyId quote) (mailTemplates w2) of
                               None \<Rightarrow>
                                 (Inl (BadRequestException
                                         ''Email template for signature request not found.''),
                                  logger ERROR ''Email template for signature request not found.''
                                    ''signature'' w2)
                             | Some mailTemplate \<Rightarrow>
                                 (let mailOptions = \<lparr>m_to = email, m_subject = mt_subject mailTemplate,
                                                     m_html = mt_body mailTemplate,
                                                     m_signatureId = sg_id signature\<rparr>
                                  in case sendMail env mailOptions of
                                       Some e \<Rightarrow>
                                         (Inl (BadRequestException
                                            ''Failed to send signature email. Please check your SMTP configuration.''),
                                          logger ERROR ''Failed to send signature email''
                                            ''signature'' w2)
                                     | None \<Rightarrow>
                                         (Inr (sg_id signature),
                                          logger INFO ''Signature email sent'' ''signature''
                                            (w2\<lparr>mailbox := mailbox w2 @ [mailOptions]\<rparr>)))))))"

text \<open>\<^verbatim>\<open>prisma.quote.update({ where: { id }, data: { status } })\<close>.\<close>

definition setQuoteStatus :: "ident \<Rightarrow> quote_status \<Rightarrow> quote list \<Rightarrow> quote list" where
  "setQuoteStatus quoteId st tbl =
     map (\<lambda>q. if q_id q = quoteId then q\<lparr>q_status := st\<rparr> else q) tbl"

text \<open>\<^verbatim>\<open>createSignature\<close>; the error of a failed dispatch is logged without a category.\<close>

definition createSignature ::
  "'r env \<Rightarrow> generated \<Rightarrow> ident \<Rightarrow> world \<Rightarrow> (exn + ident) \<times> world" where
  "createSignature env g quoteId w =
     (case find (\<lambda>q. q_id q = quoteId) (quotes w) of
        None \<Rightarrow>
          (Inl (BadRequestException ''Quote not found or client information is missing.''),
           logger ERROR ''Quote not found or client information is missing.'' ''signature'' w)
      | Some quote \<Rightarrow>
          (case quoteContactEmail quote w of
             None \<Rightarrow>
               (Inl (BadRequestException ''Quote not found or client information is missing.''),
                logger ERROR ''Quote not found or client information is missing.'' ''signature'' w)
           | Some email \<Rightarrow>
               (case sendSignatureEmail env g (q_id quote) w of
                  (Inl e, w1) \<Rightarrow>
                    (Inl e, logger ERROR ''Failed to create signature.'' ''signature'' w1)
                | (Inr signatureId, w1) \<Rightarrow>
                    (Inr signatureId,
                     logger INFO ''Signature created'' ''signature''
                       (try_dispatch env SIGNATURE_CREATED
                          (SignatureCreatedPayload (q_id quote) signatureId (quoteClient quote w))
                          ''Failed to dispatch SIGNATURE_CREATED webhook'' []
                          (w1\<lparr>quotes := setQuoteStatus quoteId SENT (quotes w1)\<rparr>))))))"

text \<open>The \<^verbatim>\<open>where\<close> clause of \<^verbatim>\<open>signQuote\<close>.\<close>

definition otp_matches :: "instant \<Rightarrow> ident \<Rightarrow> string \<Rightarrow> signature \<Rightarrow> bool" where
  "otp_matches now signatureId otpCode s =
     (sg_id s = signatureId \<and> sg_otpCode s = Some otpCode \<and> \<not> sg_otpUsed s \<and> sg_isActive s
      \<and> (case sg_expiresAt s of None \<Rightarrow> False | Some e \<Rightarrow> e \<ge> now))"

text \<open>\<^verbatim>\<open>signQuote\<close>; \<^verbatim>\<open>now\<close> stands for each \<^verbatim>\<open>new Date()\<close> of the call. The update of
  a quote that does not exist is rejected by Prisma.\<close>

definition signQuote ::
  "'r env \<Rightarrow> instant \<Rightarrow> ident \<Rightarrow> string \<Rightarrow> world \<Rightarrow> (exn + string) \<times> world" where
  "signQuote env now signatureId otpCode w =
     (case find (otp_matches now signatureId otpCode) (signatures w) of
        None \<Rightarrow>
          (Inl (BadRequestException ''Invalid or expired OTP code.''),
           logger ERROR ''Invalid or expired OTP code.'' ''signature'' w)
      | Some signature \<Rightarrow>
          (let w1 = w\<lparr>signatures :=
                        map (\<lambda>s. if sg_id s = sg_id signature
                                  then s\<lparr>sg_otpUsed := True, sg_signedAt := Some now\<rparr> else s)
                            (signatures w)\<rparr>
           in if find (\<lambda>q. q_id q = sg_quoteId signature) (quotes w1) = None
              then (Inl (PrismaError ''Record to update not found.''), w1)
              else
                (Inr ''Quote signed successfully.'',
                 logger INFO ''Quote signed'' ''signature''
                   (try_dispatch env SIGNATURE_COMPLETED
                      (SignatureCompletedPayload signatureId (sg_quoteId signature) now)
                      ''Failed to dispatch SIGNATURE_COMPLETED webhook'' []
                      (w1\<lparr>quotes := setQuoteStatus (sg_quoteId signature) SIGNED (quotes w1)\<rparr>)))))"

text \<open>Sequences of the two operations, whatever their arguments and their outcome.\<close>

datatype signature_op =
    CreateSignature generated ident
  | SignQuote instant ident string

fun signature_step :: "'r env \<Rightarrow> world \<Rightarrow> signature_op \<Rightarrow> world" where
  "signature_step env w (CreateSignature g quoteId) = snd (createSignature env g quoteId w)"
| "signature_step env w (SignQuote now signatureId otpCode) =
     snd (signQuote env now signatureId otpCode w)"

definition signature_run :: "'r env \<Rightarrow> signature_op list \<Rightarrow> world \<Rightarrow> world" where
  "signature_run env ops w = foldl (signature_step env) w ops"

text \<open>The active signatures of a quote.\<close>

definition activeSignatures :: "ident \<Rightarrow> world \<Rightarrow> signature list" where
  "activeSignatures quoteId w =
     filter (\<lambda>s. sg_quoteId s = quoteId \<and> sg_isActive s) (signatures w)"

text \<open>A quote after some signature operations, against the quote before them: the same
  quote, or the same quote with the status \<^verbatim>\<open>SENT\<close> or \<^verbatim>\<open>SIGNED\<close>.\<close>

definition advanced :: "quote \<Rightarrow> quote \<Rightarrow> bool" where
  "advanced q q' = (q' = q \<or> q' = q\<lparr>q_status := SENT\<rparr> \<or> q' = q\<lparr>q_status := SIGNED\<rparr>)"

section \<open>InvoicesService\<close>

text \<open>The request bodies, with the fields the service reads; an absent optional field is
  \<^verbatim>\<open>None\<close>.\<close>

record invoice_item_dto =
  idto_id :: "ident option"
  idto_description :: string
  idto_quantity :: number
  idto_unitPrice :: number
  idto_vatRate :: "number option"
  idto_type :: string
  idto_order :: "number option"

record invoice_dto =
  dto_id :: "ident option"
  dto_clientId :: ident
  dto_quoteId :: "ident option"
  dto_recurringInvoiceId :: "ident option"
  dto_dueDate :: "instant option"
  dto_currency :: "string option"
  dto_notes :: "string option"
  dto_paymentMethod :: "string option"
  dto_paymentMethodId :: "ident option"
  dto_paymentDetails :: "string option"
  dto_items :: "invoice_item_dto list"

text \<open>\<^verbatim>\<open>x || 0\<close> on an optional number.\<close>

definition or_zero :: "number option \<Rightarrow> number" where
  "or_zero x = (case x of None \<Rightarrow> 0 | Some v \<Rightarrow> v)"

text \<open>\<^verbatim>\<open>a || b\<close> on optional strings, as an optional string.\<close>

definition or_str :: "string option \<Rightarrow> string option \<Rightarrow> string option" where
  "or_str a b = (if truthy_str a then a else b)"

text \<open>\<^verbatim>\<open>String.prototype.toUpperCase\<close> on the ASCII letters.\<close>

definition upper_char :: "char \<Rightarrow> char" where
  "upper_char c =
     (case map_of (zip ''abcdefghijklmnopqrstuvwxyz'' ''ABCDEFGHIJKLMNOPQRSTUVWXYZ'') c of
        None \<Rightarrow> c
      | Some u \<Rightarrow> u)"

definition toUpperCase :: "string \<Rightarrow> string" where
  "toUpperCase s = map upper_char s"

definition isVatExemptFrance :: "company \<Rightarrow> bool" where
  "isVatExemptFrance company =
     (co_exemptVat company \<and>
      toUpperCase (case co_country company of None \<Rightarrow> [] | Some c \<Rightarrow> c) = ''FRANCE'')"

text \<open>The three \<^verbatim>\<open>reduce\<close> calls.\<close>

definition sumHT :: "invoice_item_dto list \<Rightarrow> number" where
  "sumHT items = foldl (\<lambda>sum item. sum + idto_quantity item * idto_unitPrice item) 0 items"

definition sumVAT :: "invoice_item_dto list \<Rightarrow> number" where
  "sumVAT items =
     foldl (\<lambda>sum item. sum + idto_quantity item * idto_unitPrice item
                              * or_zero (idto_vatRate item) / 100) 0 items"

definition sumTTC :: "invoice_item_dto list \<Rightarrow> number" where
  "sumTTC items =
     foldl (\<lambda>sum item. sum + idto_quantity item * idto_unitPrice item
                              * (1 + or_zero (idto_vatRate item) / 100)) 0 items"

text \<open>The item row written for a submitted item.\<close>

definition stored_item :: "bool \<Rightarrow> ident \<Rightarrow> invoice_item_dto \<Rightarrow> invoice_item" where
  "stored_item exempt k item =
     \<lparr>it_id = k, it_description = idto_description item, it_quantity = idto_quantity item,
      it_unitPrice = idto_unitPrice item,
      it_vatRate = (if exempt then 0 else or_zero (idto_vatRate item)),
      it_type = idto_type item, it_order = or_zero (idto_order item)\<rparr>"

definition created_items :: "bool \<Rightarrow> (nat \<Rightarrow> ident) \<Rightarrow> invoice_item_dto list \<Rightarrow> invoice_item list" where
  "created_items exempt gen items =
     map (\<lambda>(k, item). stored_item exempt (gen k) item) (enumerate 0 items)"

text \<open>\<^verbatim>\<open>prisma.company.findFirst()\<close>.\<close>

definition findFirst :: "'a list \<Rightarrow> 'a option" where
  "findFirst xs = (case xs of [] \<Rightarrow> None | x # _ \<Rightarrow> Some x)"

definition invoiceCurrency :: "invoice_dto \<Rightarrow> client \<Rightarrow> company \<Rightarrow> string" where
  "invoiceCurrency body client company =
     (case or_str (dto_currency body) (cl_currency client) of
        Some c \<Rightarrow> if c = [] then co_currency company else c
      | None \<Rightarrow> co_currency company)"

definition invoiceDueDate :: "instant \<Rightarrow> invoice_dto \<Rightarrow> instant" where
  "invoiceDueDate now body =
     (case dto_dueDate body of Some d \<Rightarrow> d | None \<Rightarrow> now + 14 * 24 * 60 * 60 * 1000)"

text \<open>
  Modelled from the spec: the Prisma schema is not under the sources at hand, and
  \<^verbatim>\<open>prisma.invoice.create\<close> is given neither a status nor \<^verbatim>\<open>isActive\<close>. A new invoice
  is active and \<^verbatim>\<open>UNPAID\<close> (the status the \<^verbatim>\<open>UNPAID\<close> to \<^verbatim>\<open>PAID\<close> transition starts
  from).
\<close>

definition newInvoice :: "generated \<Rightarrow> invoice_dto \<Rightarrow> client \<Rightarrow> company \<Rightarrow> invoice" where
  "newInvoice g body client company =
     (let items = dto_items body;
          totalHT = sumHT items;
          exempt = isVatExemptFrance company;
          totalVAT = (if exempt then 0 else sumVAT items);
          totalTTC = (if exempt then totalHT else sumTTC items)
      in \<lparr>inv_id = g_id g, inv_clientId = dto_clientId body, inv_companyId = co_id company,
          inv_quoteId = dto_quoteId body, inv_recurringInvoiceId = dto_recurringInvoiceId body,
          inv_status = UNPAID, inv_isActive = True,
          inv_currency = invoiceCurrency body client company,
          inv_totalHT = totalHT, inv_totalVAT = totalVAT, inv_totalTTC = totalTTC,
          inv_createdAt = g_now g, inv_dueDate = invoiceDueDate (g_now g) body,
          inv_notes = dto_notes body, inv_paymentMethod = dto_paymentMethod body,
          inv_paymentMethodId = dto_paymentMethodId body,
          inv_paymentDetails = dto_paymentDetails body,
          inv_items = created_items exempt (g_itemId g) items\<rparr>)"

text \<open>\<^verbatim>\<open>createInvoice\<close>. Of the foreign keys of the new row the client and the company are
  checked by the code itself; the others are not modelled.\<close>

definition createInvoice ::
  "'r env \<Rightarrow> generated \<Rightarrow> invoice_dto \<Rightarrow> world \<Rightarrow> (exn + invoice) \<times> world" where
  "createInvoice env g body w =
     (case findFirst (companies w) of
        None \<Rightarrow>
          (Inl (BadRequestException ''No company found. Please create a company first.''),
           logger ERROR ''No company found. Please create a company first.'' ''invoice'' w)
      | Some company \<Rightarrow>
          (case find (\<lambda>c. cl_id c = dto_clientId body) (clients w) of
             None \<Rightarrow>
               (Inl (BadRequestException ''Client not found''),
                logger ERROR ''Client not found'' ''invoice'' w)
           | Some client \<Rightarrow>
               if g_id g \<in> set (map inv_id (invoices w))
               then (Inl (PrismaError ''Unique constraint failed on the fields: (id)''), w)
               else
                 (let invoice = newInvoice g body client company
                  in (Inr invoice,
                      try_dispatch env INVOICE_CREATED
                        (InvoicePayload invoice (Some client) (Some company))
                        ''Failed to dispatch INVOICE_CREATED webhook'' ''invoice''
                        (logger INFO ''Invoice created'' ''invoice''
                           (w\<lparr>invoices := invoices w @ [invoice]\<rparr>))))))"

text \<open>The nested writes of \<^verbatim>\<open>editInvoice\<close> on the items of the invoice:
  \<^verbatim>\<open>deleteMany\<close>, one \<^verbatim>\<open>updateMany\<close> per submitted item that has an id, and
  \<^verbatim>\<open>create\<close> for the submitted items without id.\<close>

definition has_id :: "invoice_item_dto \<Rightarrow> bool" where
  "has_id item = truthy_str (idto_id item)"

definition updateItem :: "bool \<Rightarrow> invoice_item list \<Rightarrow> invoice_item_dto \<Rightarrow> invoice_item list" where
  "updateItem exempt its item =
     map (\<lambda>i. if Some (it_id i) = idto_id item then stored_item exempt (it_id i) item else i) its"

definition editedItems ::
  "bool \<Rightarrow> (nat \<Rightarrow> ident) \<Rightarrow> invoice_item_dto list \<Rightarrow> invoice_item list \<Rightarrow> invoice_item list" where
  "editedItems exempt gen items existing =
     (let existingItemIds = map it_id existing;
          incomingItemIds = map (\<lambda>i. the (idto_id i)) (filter has_id items);
          itemIdsToDelete = filter (\<lambda>k. k \<notin> set incomingItemIds) existingItemIds;
          kept = filter (\<lambda>i. it_id i \<notin> set itemIdsToDelete) existing;
          updated = foldl (updateItem exempt) kept (filter has_id items)
      in updated @ created_items exempt gen (filter (\<lambda>i. \<not> has_id i) items))"

text \<open>The row after \<^verbatim>\<open>prisma.invoice.update\<close>; an \<^verbatim>\<open>undefined\<close> value leaves its column as
  it is.\<close>

definition editedInvoice ::
  "generated \<Rightarrow> invoice_dto \<Rightarrow> client \<Rightarrow> company \<Rightarrow> invoice \<Rightarrow> invoice" where
  "editedInvoice g body client company existingInvoice =
     (let items = dto_items body;
          totalHT = sumHT items;
          exempt = isVatExemptFrance company;
          totalVAT = (if exempt then 0 else sumVAT items);
          totalTTC = (if exempt then totalHT else sumTTC items)
      in existingInvoice
          \<lparr>inv_recurringInvoiceId :=
             (case dto_recurringInvoiceId body of
                None \<Rightarrow> inv_recurringInvoiceId existingInvoice | Some v \<Rightarrow> Some v),
           inv_paymentMethod := or_str (dto_paymentMethod body) (inv_paymentMethod existingInvoice),
           inv_paymentMethodId :=
             or_str (dto_paymentMethodId body) (inv_paymentMethodId existingInvoice),
           inv_paymentDetails :=
             or_str (dto_paymentDetails body) (inv_paymentDetails existingInvoice),
           inv_quoteId := or_str (dto_quoteId body) (inv_quoteId existingInvoice),
           inv_clientId :=
             (if dto_clientId body = [] then inv_clientId existingInvoice else dto_clientId body),
           inv_notes :=
             (case dto_notes body of None \<Rightarrow> inv_notes existingInvoice | Some v \<Rightarrow> Some v),
           inv_currency := invoiceCurrency body client company,
           inv_dueDate := invoiceDueDate (g_now g) body,
           inv_totalHT := totalHT, inv_totalVAT := totalVAT, inv_totalTTC := totalTTC,
           inv_items := editedItems exempt (g_itemId g) items (inv_items existingInvoice)\<rparr>)"







section \<open>StatsService.getMonthlyStats\<close>


























section \<open>Example states\<close>

text \<open>A small installation, used to run the definitions on concrete inputs: every driver
  supports the type of its name and resolves with \<^verbatim>\<open>True\<close>, except that every delivery
  to the url \<^verbatim>\<open>down\<close> is rejected.\<close>

definition ex_env :: "bool env" where
  "ex_env =
     \<lparr>supports = (\<lambda>d t. (d = SlackDriver \<and> t = ''SLACK'') \<or> (d = GenericDriver \<and> t = ''GENERIC'')
                          \<or> (d = DiscordDriver \<and> t = ''DISCORD'')),
      driverSend = (\<lambda>d. if dl_url d = ''down'' then Inl (WebhookError ''unreachable'') else Inr True),
      sendMail = (\<lambda>m. None),
      requestSignature = None\<rparr>"

definition ex_company :: company where
  "ex_company = \<lparr>co_id = ''co1'', co_exemptVat = False, co_country = Some ''France'',
                  co_currency = ''EUR''\<rparr>"

definition ex_client :: client where
  "ex_client = \<lparr>cl_id = ''c1'', cl_name = ''ACME'', cl_contactEmail = Some ''a@acme.test'',
                 cl_currency = None, cl_isActive = True\<rparr>"

definition ex_hook :: "string \<Rightarrow> string \<Rightarrow> webhook" where
  "ex_hook t url = \<lparr>wh_type = t, wh_url = url, wh_secret = None,
                    wh_events = [INVOICE_CREATED, INVOICE_DELETED, CLIENT_DELETED],
                    wh_companyId = Some ''co1''\<rparr>"

definition ex_world :: world where
  "ex_world =
     \<lparr>companies = [ex_company], clients = [ex_client], invoices = [], receipts = [],
      quotes = [], signatures = [], mailTemplates = [], webhooks = [], logs = [],
      outbox = [], mailbox = []\<rparr>"

definition ex_invoice :: invoice where
  "ex_invoice =
     \<lparr>inv_id = ''i1'', inv_clientId = ''c1'', inv_companyId = ''co1'', inv_quoteId = None,
      inv_recurringInvoiceId = None, inv_status = UNPAID, inv_isActive = True,
      inv_currency = ''EUR'', inv_totalHT = 100, inv_totalVAT = 20, inv_totalTTC = 120,
      inv_createdAt = 1000, inv_dueDate = 2000, inv_notes = None, inv_paymentMethod = None,
      inv_paymentMethodId = None, inv_paymentDetails = None,
      inv_items = [\<lparr>it_id = ''it1'', it_description = ''work'', it_quantity = 2,
                    it_unitPrice = 50, it_vatRate = 20, it_type = ''SERVICE'', it_order = 0\<rparr>]\<rparr>"

definition ex_gen :: generated where
  "ex_gen = \<lparr>g_id = ''r1'', g_now = 5000, g_itemId = (\<lambda>k. ''x'')\<rparr>"



definition ex_quote :: "quote_status \<Rightarrow> quote" where
  "ex_quote st = \<lparr>q_id = ''q1'', q_number = ''Q-1'', q_status = st, q_clientId = Some ''c1'',
                   q_companyId = ''co1''\<rparr>"

definition ex_template :: mail_template where
  "ex_template = \<lparr>mt_type = ''SIGNATURE_REQUEST'', mt_companyId = ''co1'',
                   mt_subject = ''Please sign'', mt_body = ''{{SIGNATURE_URL}}''\<rparr>"

definition ex_signature :: signature where
  "ex_signature = \<lparr>sg_id = ''s0'', sg_quoteId = ''q1'', sg_isActive = True,
                    sg_otpCode = Some ''12345678'', sg_otpUsed = False,
                    sg_expiresAt = Some 9000, sg_signedAt = None\<rparr>"

definition ex_quote_world :: "quote_status \<Rightarrow> world" where
  "ex_quote_world st =
     ex_world\<lparr>quotes := [ex_quote st], signatures := [ex_signature],
              mailTemplates := [ex_template]\<rparr>"

definition ex_invoice_body :: invoice_dto where
  "ex_invoice_body =
     \<lparr>dto_id = Some ''i1'', dto_clientId = ''c1'', dto_quoteId = None,
      dto_recurringInvoiceId = None, dto_dueDate = None, dto_currency = None,
      dto_notes = None, dto_paymentMethod = None, dto_paymentMethodId = None,
      dto_paymentDetails = None,
      dto_items = [\<lparr>idto_id = Some ''it1'', idto_description = ''work'', idto_quantity = 2,
                     idto_unitPrice = 50, idto_vatRate = Some 20, idto_type = ''SERVICE'',
                     idto_order = None\<rparr>,
                   \<lparr>idto_id = None, idto_description = ''travel'', idto_quantity = 1,
                     idto_unitPrice = 30, idto_vatRate = None, idto_type = ''SERVICE'',
                     idto_order = Some 1\<rparr>]\<rparr>"






section \<open>Theorems\<close>

subsection \<open>Registration gate\<close>

lemma truthy_str_missing: "truthy_str c = (\<not> code_missing c)"
  by (cases c) (auto simp: truthy_str_def code_missing_def)

text \<open>
  C8. With no user, \<^verbatim>\<open>canRegister\<close> allows registration and requires no code, whatever
  code is supplied. With at least one user it allows registration exactly when the
  supplied code exists, is unused and is not expired, and then still reports that a code is
  required; in every other case it refuses, requires a code, and the message tells whether
  the code was missing, invalid, already used or expired.
\<close>

theorem canRegister_decision:
  "(userCount = 0 \<longrightarrow>
      canRegister userCount tbl now c = \<lparr>allowed = True, requiresCode = False, message = None\<rparr>)
   \<and> (userCount \<noteq> 0 \<longrightarrow>
        allowed (canRegister userCount tbl now c) = code_usable tbl now c
      \<and> requiresCode (canRegister userCount tbl now c)
      \<and> message (canRegister userCount tbl now c) =
          (if code_missing c then Some ''An invitation code is required to register''
           else if code_unknown tbl c then Some ''Invalid invitation code''
           else if code_used tbl c then Some ''This invitation code has already been used''
           else if code_expired tbl now c then Some ''This invitation code has expired''
           else None))"
  unfolding canRegister_def truthy_str_missing code_usable_def code_unknown_def
    code_used_def code_expired_def
  by (auto split: option.splits)

theorem canRegister_decision_witness:
  "canRegister 0 [] 100 (Some ''ABC'') = \<lparr>allowed = True, requiresCode = False, message = None\<rparr>
   \<and> allowed (canRegister 2
        [\<lparr>ic_code = ''ABC'', ic_usedAt = None, ic_expiresAt = Some 150\<rparr>] 100 (Some ''ABC''))
   \<and> code_usable [\<lparr>ic_code = ''ABC'', ic_usedAt = None, ic_expiresAt = Some 150\<rparr>] 100 (Some ''ABC'')
   \<and> message (canRegister 2
        [\<lparr>ic_code = ''ABC'', ic_usedAt = None, ic_expiresAt = Some 50\<rparr>] 100 (Some ''ABC''))
       = Some ''This invitation code has expired''"
  using canRegister_decision [of 0 "[]" 100 "Some ''ABC''"]
    canRegister_decision [of 2 "[\<lparr>ic_code = ''ABC'', ic_usedAt = None, ic_expiresAt = Some 150\<rparr>]"
      100 "Some ''ABC''"]
    canRegister_decision [of 2 "[\<lparr>ic_code = ''ABC'', ic_usedAt = None, ic_expiresAt = Some 50\<rparr>]"
      100 "Some ''ABC''"]
  by (simp add: code_usable_def code_missing_def code_unknown_def code_used_def
      code_expired_def findInvitation_def)

subsection \<open>Frame lemmas for logging and dispatch\<close>

lemma tables_logger [simp]: "tables (logger lvl msg cat w) = tables w"
  by (simp add: tables_def logger_def)

lemma tables_outbox [simp]: "tables (w\<lparr>outbox := ob\<rparr>) = tables w"
  by (simp add: tables_def)

lemma tables_send [simp]: "tables (snd (send env hooks ev pl w)) = tables w"
  by (simp add: send_def Let_def split: sum.splits)

lemma tables_dispatch [simp]: "tables (snd (dispatch env ev pl w)) = tables w"
proof -
  obtain r w1 where s: "send env (filter (\<lambda>h. ev \<in> set (wh_events h) \<and>
                     (case payload_companyId pl of None \<Rightarrow> True
                      | Some c \<Rightarrow> wh_companyId h = Some c)) (webhooks w)) ev pl w = (r, w1)"
    by (cases "send env (filter (\<lambda>h. ev \<in> set (wh_events h) \<and>
                     (case payload_companyId pl of None \<Rightarrow> True
                      | Some c \<Rightarrow> wh_companyId h = Some c)) (webhooks w)) ev pl w")
  have "tables (snd (r, w1)) = tables w" unfolding s [symmetric] by (rule tables_send)
  then have "tables w1 = tables w" by simp
  then show ?thesis by (cases r) (simp_all add: dispatch_def s)
qed

lemma tables_try_dispatch [simp]: "tables (try_dispatch env ev pl msg cat w) = tables w"
proof -
  obtain r w1 where d: "dispatch env ev pl w = (r, w1)" by (cases "dispatch env ev pl w")
  have "tables (snd (r, w1)) = tables w" unfolding d [symmetric] by (rule tables_dispatch)
  then have "tables w1 = tables w" by simp
  then show ?thesis by (cases r) (simp_all add: try_dispatch_def d)
qed

lemma promise_all_Inr: "promise_all ps = Inr rs \<Longrightarrow> ps = map Inr rs"
  by (induction ps arbitrary: rs rule: promise_all.induct) (auto split: sum.splits)

lemma promise_all_map_Inr: "promise_all (map Inr rs) = Inr rs"
  by (induction rs) auto

lemma promise_all_resolves:
  "(\<forall>p \<in> set ps. \<exists>r. p = Inr r) \<Longrightarrow> \<exists>rs. promise_all ps = Inr rs"
  by (induction ps rule: promise_all.induct) auto

lemma getDriver_first:
  assumes "\<exists>d \<in> set drivers. supports env d t"
  shows "\<exists>i < length drivers. getDriver env t = drivers ! i \<and> supports env (drivers ! i) t \<and>
      (\<forall>j < i. \<not> supports env (drivers ! j) t)"
proof -
  from assms obtain d where f: "find (\<lambda>d. supports env d t) drivers = Some d"
    by (cases "find (\<lambda>d. supports env d t) drivers") (auto simp: find_None_iff)
  then obtain i where "i < length drivers" "supports env (drivers ! i) t" "d = drivers ! i"
    "\<forall>j < i. \<not> supports env (drivers ! j) t"
    unfolding find_Some_iff by blast
  moreover have "getDriver env t = d" by (simp add: getDriver_def f)
  ultimately show ?thesis by blast
qed

lemma getDriver_fallback:
  "\<forall>d \<in> set drivers. \<not> supports env d t \<Longrightarrow> getDriver env t = GenericDriver"
  by (simp add: getDriver_def find_None_iff[THEN iffD2])

lemma send_outbox:
  "outbox (snd (send env hooks ev pl w)) = outbox w @ map (delivery_of env ev pl) hooks"
  by (simp add: send_def Let_def logger_def split: sum.splits)

lemma send_results:
  assumes "fst (send env hooks ev pl w) = Inr rs"
  shows "length rs = length hooks \<and>
         (\<forall>i < length hooks. driverSend env (delivery_of env ev pl (hooks ! i)) = Inr (rs ! i))"
proof -
  let ?f = "\<lambda>h. driverSend env (delivery_of env ev pl h)"
  from assms have "promise_all (map (driverSend env) (map (delivery_of env ev pl) hooks)) = Inr rs"
    by (simp add: send_def Let_def split: sum.splits)
  then have "map (driverSend env) (map (delivery_of env ev pl) hooks) = map Inr rs"
    by (rule promise_all_Inr)
  then have eq: "map ?f hooks = map Inr rs" by (simp add: comp_def)
  then have "length hooks = length rs" by (rule map_eq_imp_length_eq)
  then have len: "length rs = length hooks" by simp
  have "?f (hooks ! i) = Inr (rs ! i)" if "i < length hooks" for i
  proof -
    have "?f (hooks ! i) = map ?f hooks ! i" using that by simp
    also have "\<dots> = map Inr rs ! i" by (simp only: eq)
    also have "\<dots> = Inr (rs ! i)" using that len by simp
    finally show ?thesis .
  qed
  with len show ?thesis by blast
qed

lemma send_resolves:
  assumes "\<forall>h \<in> set hooks. \<exists>r. driverSend env (delivery_of env ev pl h) = Inr r"
  shows "\<exists>rs. fst (send env hooks ev pl w) = Inr rs"
proof -
  have "\<forall>p \<in> set (map (driverSend env) (map (delivery_of env ev pl) hooks)). \<exists>r. p = Inr r"
    using assms by auto
  then obtain rs where "promise_all (map (driverSend env) (map (delivery_of env ev pl) hooks)) = Inr rs"
    using promise_all_resolves by blast
  then show ?thesis by (simp add: send_def Let_def)
qed


lemma find_map_upd:
  assumes "\<And>x. P (f x) = P x"
  shows "find P (map (\<lambda>x. if P x then f x else x) xs) = map_option f (find P xs)"
  by (induction xs) (auto simp: assms)

lemma invoices_tables: "invoices (tables w) = invoices w"
  by (simp add: tables_def)

lemma clients_tables: "clients (tables w) = clients w"
  by (simp add: tables_def)

lemma tables_eq_invoices: "tables w' = tables w \<Longrightarrow> invoices w' = invoices w"
  by (metis invoices_tables)

lemma tables_eq_clients: "tables w' = tables w \<Longrightarrow> clients w' = clients w"
  by (metis clients_tables)

lemma outbox_logger [simp]: "outbox (logger lvl msg cat w) = outbox w"
  by (simp add: logger_def)

lemma deleteInvoice_found:
  assumes "find (\<lambda>i. inv_id i = rid) (invoices w) = Some i"
  shows "fst (deleteInvoice env rid w) = Inr (i\<lparr>inv_isActive := False\<rparr>)"
    and "tables (snd (deleteInvoice env rid w)) =
           tables (w\<lparr>invoices := deactivateInvoice rid (invoices w)\<rparr>)"
  using assms by (simp_all add: deleteInvoice_def Let_def)

lemma deleteInvoice_missing:
  assumes "find (\<lambda>i. inv_id i = rid) (invoices w) = None"
  shows "deleteInvoice env rid w =
           (Inl (BadRequestException ''Invoice not found''),
            logger ERROR ''Invoice not found'' ''invoice'' w)"
  using assms by (simp add: deleteInvoice_def)

lemma deleteClient_found:
  assumes "find (\<lambda>c. cl_id c = rid) (clients w) = Some c"
  shows "fst (deleteClient env rid w) = Inr (c\<lparr>cl_isActive := False\<rparr>)"
    and "tables (snd (deleteClient env rid w)) =
           tables (w\<lparr>clients := deactivateClient rid (clients w)\<rparr>)"
  using assms by (simp_all add: deleteClient_def Let_def)

lemma deleteClient_missing:
  assumes "find (\<lambda>c. cl_id c = rid) (clients w) = None"
  shows "deleteClient env rid w =
           (Inl (BadRequestException ''Client not found''),
            logger ERROR ''Client not found'' ''client'' w)"
  using assms by (simp add: deleteClient_def)

lemma find_deactivateInvoice:
  "find (\<lambda>i. inv_id i = rid) (deactivateInvoice rid tbl) =
     map_option (\<lambda>i. i\<lparr>inv_isActive := False\<rparr>) (find (\<lambda>i. inv_id i = rid) tbl)"
  unfolding deactivateInvoice_def
  by (rule find_map_upd [where P = "\<lambda>i. inv_id i = rid"]) simp

lemma find_deactivateClient:
  "find (\<lambda>c. cl_id c = rid) (deactivateClient rid tbl) =
     map_option (\<lambda>c. c\<lparr>cl_isActive := False\<rparr>) (find (\<lambda>c. cl_id c = rid) tbl)"
  unfolding deactivateClient_def
  by (rule find_map_upd [where P = "\<lambda>c. cl_id c = rid"]) simp

subsection \<open>Soft deletes\<close>

text \<open>
  C10. \<^verbatim>\<open>deleteInvoice\<close> and \<^verbatim>\<open>deleteClient\<close> are soft deletes. For an existing id
  the record is still found afterwards and differs from the one found before in its
  \<^verbatim>\<open>isActive\<close> field only, which is false (its items are the same); every other record
  of the database is as before. For an id that does not exist the operation throws
  \<^verbatim>\<open>BadRequestException\<close>, no record of the database changes and no webhook is sent
  (an error entry is logged).
\<close>

theorem soft_delete_frame:
  "(\<forall>i. find (\<lambda>i. inv_id i = rid) (invoices w) = Some i \<longrightarrow>
       fst (deleteInvoice env rid w) = Inr (i\<lparr>inv_isActive := False\<rparr>)
     \<and> tables (snd (deleteInvoice env rid w)) =
         tables (w\<lparr>invoices := map (\<lambda>j. if inv_id j = rid then j\<lparr>inv_isActive := False\<rparr> else j)
                                  (invoices w)\<rparr>)
     \<and> find (\<lambda>i. inv_id i = rid) (invoices (snd (deleteInvoice env rid w)))
         = Some (i\<lparr>inv_isActive := False\<rparr>)
     \<and> inv_items (i\<lparr>inv_isActive := False\<rparr>) = inv_items i)
   \<and> (find (\<lambda>i. inv_id i = rid) (invoices w) = None \<longrightarrow>
       fst (deleteInvoice env rid w) = Inl (BadRequestException ''Invoice not found'')
     \<and> tables (snd (deleteInvoice env rid w)) = tables w
     \<and> outbox (snd (deleteInvoice env rid w)) = outbox w)
   \<and> (\<forall>c. find (\<lambda>c. cl_id c = rid) (clients w) = Some c \<longrightarrow>
       fst (deleteClient env rid w) = Inr (c\<lparr>cl_isActive := False\<rparr>)
     \<and> tables (snd (deleteClient env rid w)) =
         tables (w\<lparr>clients := map (\<lambda>d. if cl_id d = rid then d\<lparr>cl_isActive := False\<rparr> else d)
                                 (clients w)\<rparr>)
     \<and> find (\<lambda>c. cl_id c = rid) (clients (snd (deleteClient env rid w)))
         = Some (c\<lparr>cl_isActive := False\<rparr>))
   \<and> (find (\<lambda>c. cl_id c = rid) (clients w) = None \<longrightarrow>
       fst (deleteClient env rid w) = Inl (BadRequestException ''Client not found'')
     \<and> tables (snd (deleteClient env rid w)) = tables w
     \<and> outbox (snd (deleteClient env rid w)) = outbox w)"
proof (intro conjI allI impI)
  fix i assume f: "find (\<lambda>i. inv_id i = rid) (invoices w) = Some i"
  show "fst (deleteInvoice env rid w) = Inr (i\<lparr>inv_isActive := False\<rparr>)"
    using f by (rule deleteInvoice_found)
  show t: "tables (snd (deleteInvoice env rid w)) =
         tables (w\<lparr>invoices := map (\<lambda>j. if inv_id j = rid then j\<lparr>inv_isActive := False\<rparr> else j)
                                  (invoices w)\<rparr>)"
    using deleteInvoice_found(2) [OF f] by (simp add: deactivateInvoice_def)
  have "invoices (snd (deleteInvoice env rid w)) = deactivateInvoice rid (invoices w)"
    using tables_eq_invoices [OF deleteInvoice_found(2) [OF f, of env]] by simp
  then show "find (\<lambda>i. inv_id i = rid) (invoices (snd (deleteInvoice env rid w)))
         = Some (i\<lparr>inv_isActive := False\<rparr>)"
    by (simp add: find_deactivateInvoice f)
  show "inv_items (i\<lparr>inv_isActive := False\<rparr>) = inv_items i" by simp
next
  assume f: "find (\<lambda>i. inv_id i = rid) (invoices w) = None"
  show "fst (deleteInvoice env rid w) = Inl (BadRequestException ''Invoice not found'')"
    by (simp add: deleteInvoice_missing [OF f])
  show "tables (snd (deleteInvoice env rid w)) = tables w"
    by (simp add: deleteInvoice_missing [OF f])
  show "outbox (snd (deleteInvoice env rid w)) = outbox w"
    by (simp add: deleteInvoice_missing [OF f])
next
  fix c assume f: "find (\<lambda>c. cl_id c = rid) (clients w) = Some c"
  show "fst (deleteClient env rid w) = Inr (c\<lparr>cl_isActive := False\<rparr>)"
    using f by (rule deleteClient_found)
  show "tables (snd (deleteClient env rid w)) =
         tables (w\<lparr>clients := map (\<lambda>d. if cl_id d = rid then d\<lparr>cl_isActive := False\<rparr> else d)
                                 (clients w)\<rparr>)"
    using deleteClient_found(2) [OF f] by (simp add: deactivateClient_def)
  have "clients (snd (deleteClient env rid w)) = deactivateClient rid (clients w)"
    using tables_eq_clients [OF deleteClient_found(2) [OF f, of env]] by simp
  then show "find (\<lambda>c. cl_id c = rid) (clients (snd (deleteClient env rid w)))
         = Some (c\<lparr>cl_isActive := False\<rparr>)"
    by (simp add: find_deactivateClient f)
next
  assume f: "find (\<lambda>c. cl_id c = rid) (clients w) = None"
  show "fst (deleteClient env rid w) = Inl (BadRequestException ''Client not found'')"
    by (simp add: deleteClient_missing [OF f])
  show "tables (snd (deleteClient env rid w)) = tables w"
    by (simp add: deleteClient_missing [OF f])
  show "outbox (snd (deleteClient env rid w)) = outbox w"
    by (simp add: deleteClient_missing [OF f])
qed

theorem soft_delete_frame_witness:
  "fst (deleteInvoice ex_env ''i1'' (ex_world\<lparr>invoices := [ex_invoice]\<rparr>))
      = Inr (ex_invoice\<lparr>inv_isActive := False\<rparr>)
   \<and> invoices (snd (deleteInvoice ex_env ''i1'' (ex_world\<lparr>invoices := [ex_invoice]\<rparr>)))
      = [ex_invoice\<lparr>inv_isActive := False\<rparr>]
   \<and> fst (deleteInvoice ex_env ''zz'' (ex_world\<lparr>invoices := [ex_invoice]\<rparr>))
      = Inl (BadRequestException ''Invoice not found'')
   \<and> fst (deleteClient ex_env ''c1'' ex_world) = Inr (ex_client\<lparr>cl_isActive := False\<rparr>)
   \<and> clients (snd (deleteClient ex_env ''c1'' ex_world)) = [ex_client\<lparr>cl_isActive := False\<rparr>]
   \<and> fst (deleteClient ex_env ''zz'' ex_world) = Inl (BadRequestException ''Client not found'')"
proof -
  have i: "find (\<lambda>i. inv_id i = ''i1'') (invoices (ex_world\<lparr>invoices := [ex_invoice]\<rparr>)) = Some ex_invoice"
    by (simp add: ex_invoice_def)
  have z: "find (\<lambda>i. inv_id i = ''zz'') (invoices (ex_world\<lparr>invoices := [ex_invoice]\<rparr>)) = None"
    by (simp add: ex_invoice_def)
  have c: "find (\<lambda>c. cl_id c = ''c1'') (clients ex_world) = Some ex_client"
    by (simp add: ex_world_def ex_client_def)
  have cz: "find (\<lambda>c. cl_id c = ''zz'') (clients ex_world) = None"
    by (simp add: ex_world_def ex_client_def)
  have ti: "invoices (snd (deleteInvoice ex_env ''i1'' (ex_world\<lparr>invoices := [ex_invoice]\<rparr>)))
      = [ex_invoice\<lparr>inv_isActive := False\<rparr>]"
    using soft_delete_frame [of "''i1''" "ex_world\<lparr>invoices := [ex_invoice]\<rparr>" ex_env] i
      tables_eq_invoices [of "snd (deleteInvoice ex_env ''i1'' (ex_world\<lparr>invoices := [ex_invoice]\<rparr>))"]
    by (simp add: ex_invoice_def)
  have tc: "clients (snd (deleteClient ex_env ''c1'' ex_world)) = [ex_client\<lparr>cl_isActive := False\<rparr>]"
    using soft_delete_frame [of "''c1''" ex_world ex_env] c
      tables_eq_clients [of "snd (deleteClient ex_env ''c1'' ex_world)"]
    by (simp add: ex_world_def ex_client_def)
  show ?thesis
    using soft_delete_frame [of "''i1''" "ex_world\<lparr>invoices := [ex_invoice]\<rparr>" ex_env]
      soft_delete_frame [of "''zz''" "ex_world\<lparr>invoices := [ex_invoice]\<rparr>" ex_env]
      soft_delete_frame [of "''c1''" ex_world ex_env]
      soft_delete_frame [of "''zz''" ex_world ex_env] i z c cz ti tc
    by simp
qed

subsection \<open>Cron\<close>

text \<open>
  C7. \<^verbatim>\<open>runScheduledTasks\<close> returns normally in every state; the state after it is the
  state before it with one more log entry, so no record of the database, no webhook
  delivery and no mail is read into the result or changed.
\<close>

theorem runScheduledTasks_only_logs:
  "runScheduledTasks w =
     (Inr (), w\<lparr>logs := logs w @ [\<lparr>lg_level = INFO, lg_message = ''Scheduled tasks executed'',
                                   lg_category = ''cron''\<rparr>]\<rparr>)
   \<and> tables (snd (runScheduledTasks w)) = tables w
   \<and> outbox (snd (runScheduledTasks w)) = outbox w
   \<and> mailbox (snd (runScheduledTasks w)) = mailbox w"
  by (simp add: runScheduledTasks_def logger_def tables_def)

subsection \<open>Webhook drivers\<close>

text \<open>
  C6. \<^verbatim>\<open>getDriver\<close> is total: when some registered driver supports the type it returns
  the first such driver of the registration order, otherwise a \<^verbatim>\<open>GenericDriver\<close>.
  \<^verbatim>\<open>send\<close> attempts one delivery per webhook of its input, in order, each through the
  driver \<^verbatim>\<open>getDriver\<close> selects for that webhook; when the drivers' calls resolve it returns,
  and whenever it returns there is exactly one result per webhook, the i-th being the
  result of the delivery to the i-th webhook.
\<close>

theorem getDriver_total_send_each:
  "((\<exists>d \<in> set drivers. supports env d t) \<longrightarrow>
      (\<exists>i < length drivers. getDriver env t = drivers ! i \<and> supports env (drivers ! i) t \<and>
          (\<forall>j < i. \<not> supports env (drivers ! j) t)))
   \<and> ((\<forall>d \<in> set drivers. \<not> supports env d t) \<longrightarrow> getDriver env t = GenericDriver)
   \<and> outbox (snd (send env hooks ev pl w)) =
       outbox w @ map (\<lambda>h. \<lparr>dl_driver = getDriver env (wh_type h), dl_url = wh_url h,
                             dl_event = ev, dl_payload = pl, dl_secret = wh_secret h\<rparr>) hooks
   \<and> ((\<forall>h \<in> set hooks. \<exists>r. driverSend env (delivery_of env ev pl h) = Inr r) \<longrightarrow>
        (\<exists>rs. fst (send env hooks ev pl w) = Inr rs))
   \<and> (\<forall>rs. fst (send env hooks ev pl w) = Inr rs \<longrightarrow>
        length rs = length hooks \<and>
        (\<forall>i < length hooks. driverSend env (delivery_of env ev pl (hooks ! i)) = Inr (rs ! i)))"
proof (intro conjI allI impI)
  assume "\<exists>d \<in> set drivers. supports env d t"
  then show "\<exists>i < length drivers. getDriver env t = drivers ! i \<and> supports env (drivers ! i) t \<and>
          (\<forall>j < i. \<not> supports env (drivers ! j) t)"
    by (rule getDriver_first)
next
  assume "\<forall>d \<in> set drivers. \<not> supports env d t"
  then show "getDriver env t = GenericDriver" by (rule getDriver_fallback)
next
  have "delivery_of env ev pl = (\<lambda>h. \<lparr>dl_driver = getDriver env (wh_type h), dl_url = wh_url h,
                             dl_event = ev, dl_payload = pl, dl_secret = wh_secret h\<rparr>)"
    by (rule ext) (simp add: delivery_of_def)
  then show "outbox (snd (send env hooks ev pl w)) =
       outbox w @ map (\<lambda>h. \<lparr>dl_driver = getDriver env (wh_type h), dl_url = wh_url h,
                             dl_event = ev, dl_payload = pl, dl_secret = wh_secret h\<rparr>) hooks"
    using send_outbox [of env hooks ev pl w] by simp
next
  assume "\<forall>h \<in> set hooks. \<exists>r. driverSend env (delivery_of env ev pl h) = Inr r"
  then show "\<exists>rs. fst (send env hooks ev pl w) = Inr rs" by (rule send_resolves)
next
  fix rs assume r: "fst (send env hooks ev pl w) = Inr rs"
  show "length rs = length hooks" using send_results [OF r] by blast
next
  fix rs i assume r: "fst (send env hooks ev pl w) = Inr rs" and i: "i < length hooks"
  show "driverSend env (delivery_of env ev pl (hooks ! i)) = Inr (rs ! i)"
    using send_results [OF r] i by blast
qed

theorem getDriver_total_send_each_witness:
  "getDriver ex_env ''SLACK'' = SlackDriver
   \<and> getDriver ex_env ''TEAMS'' = GenericDriver
   \<and> map dl_driver (outbox (snd (send ex_env [ex_hook ''SLACK'' ''u1'', ex_hook ''TEAMS'' ''u2'']
         CLIENT_DELETED (ClientPayload ex_client) ex_world))) = [SlackDriver, GenericDriver]
   \<and> fst (send ex_env [ex_hook ''SLACK'' ''u1'', ex_hook ''TEAMS'' ''u2'']
         CLIENT_DELETED (ClientPayload ex_client) ex_world) = Inr [True, True]"
  using getDriver_total_send_each [of ex_env "''SLACK''" "[ex_hook ''SLACK'' ''u1'', ex_hook ''TEAMS'' ''u2'']"
      CLIENT_DELETED "ClientPayload ex_client" ex_world]
    getDriver_total_send_each [of ex_env "''TEAMS''" "[]" CLIENT_DELETED "ClientPayload ex_client" ex_world]
  by (simp add: getDriver_def drivers_def ex_env_def ex_hook_def ex_world_def send_def
      delivery_of_def logger_def)

subsection \<open>Receipts and the status of their invoice\<close>






lemma tables_try_dispatch_console [simp]: "tables (try_dispatch_console env ev pl w) = tables w"
  by (simp add: try_dispatch_console_def)

















subsection \<open>Signatures\<close>

lemma sendSignatureEmail_fallback:
  assumes "requestSignature env = None"
    and "sendSignatureEmail env g quoteId w = (Inr sid, w')"
  shows "sid = g_id g \<and> g_id g \<notin> set (map sg_id (signatures w))
         \<and> signatures w' = deactivateOthers quoteId (g_id g) (signatures w @ [newSignature g quoteId])"
  using assms
  by (auto simp: sendSignatureEmail_def Let_def newSignature_def logger_def
      split: option.splits if_splits)

lemma active_deactivateOthers:
  "keep \<notin> set (map sg_id tbl) \<Longrightarrow>
   filter (\<lambda>s. sg_quoteId s = q \<and> sg_isActive s) (deactivateOthers q keep tbl) = []"
  by (induction tbl) (auto simp: deactivateOthers_def)

lemma other_deactivateOthers:
  "q' \<noteq> q \<Longrightarrow>
   filter (\<lambda>s. sg_quoteId s = q') (deactivateOthers q keep tbl) = filter (\<lambda>s. sg_quoteId s = q') tbl"
  by (induction tbl) (auto simp: deactivateOthers_def)

lemma deactivateOthers_append:
  "deactivateOthers q keep (xs @ ys) = deactivateOthers q keep xs @ deactivateOthers q keep ys"
  by (simp add: deactivateOthers_def)

lemma deactivateOthers_new:
  "deactivateOthers q (g_id g) [newSignature g q] = [newSignature g q]"
  by (simp add: deactivateOthers_def newSignature_def)

text \<open>
  C9. When \<^verbatim>\<open>sendSignatureEmail\<close> succeeds on the fallback path (no signing provider
  with a \<^verbatim>\<open>requestSignature\<close> function), the quote has exactly one active signature
  afterwards, the one just created, whose id is the id returned and is new; the
  signatures of every other quote are as before.
\<close>

theorem sendSignatureEmail_one_active:
  "requestSignature env = None \<and> sendSignatureEmail env g quoteId w = (Inr sid, w') \<longrightarrow>
     activeSignatures quoteId w' = [newSignature g quoteId]
   \<and> sg_id (newSignature g quoteId) = sid
   \<and> sid \<notin> set (map sg_id (signatures w))
   \<and> length (activeSignatures quoteId w') = 1
   \<and> (\<forall>q. q \<noteq> quoteId \<longrightarrow>
        filter (\<lambda>s. sg_quoteId s = q) (signatures w') = filter (\<lambda>s. sg_quoteId s = q) (signatures w))"
proof (intro impI)
  assume a: "requestSignature env = None \<and> sendSignatureEmail env g quoteId w = (Inr sid, w')"
  from sendSignatureEmail_fallback [OF conjunct1 [OF a] conjunct2 [OF a]]
  have sid: "sid = g_id g" and fresh: "g_id g \<notin> set (map sg_id (signatures w))"
    and sg: "signatures w' = deactivateOthers quoteId (g_id g) (signatures w @ [newSignature g quoteId])"
    by auto
  have act: "activeSignatures quoteId w' = [newSignature g quoteId]"
    unfolding activeSignatures_def sg deactivateOthers_append filter_append
      active_deactivateOthers [OF fresh] deactivateOthers_new
    by (simp add: newSignature_def)
  have oth: "filter (\<lambda>s. sg_quoteId s = q) (signatures w') = filter (\<lambda>s. sg_quoteId s = q) (signatures w)"
    if "q \<noteq> quoteId" for q
    unfolding sg using that
    by (simp add: other_deactivateOthers deactivateOthers_append deactivateOthers_new)
       (simp add: newSignature_def)
  show "activeSignatures quoteId w' = [newSignature g quoteId]
   \<and> sg_id (newSignature g quoteId) = sid
   \<and> sid \<notin> set (map sg_id (signatures w))
   \<and> length (activeSignatures quoteId w') = 1
   \<and> (\<forall>q. q \<noteq> quoteId \<longrightarrow>
        filter (\<lambda>s. sg_quoteId s = q) (signatures w') = filter (\<lambda>s. sg_quoteId s = q) (signatures w))"
    using act oth sid fresh by (simp add: newSignature_def)
qed

lemma ex_send:
  "sendSignatureEmail ex_env ex_gen ''q1'' (ex_quote_world DRAFT) =
     (Inr ''r1'',
      logger INFO ''Signature email sent'' ''signature''
        ((ex_quote_world DRAFT)
           \<lparr>signatures := [ex_signature\<lparr>sg_isActive := False\<rparr>, newSignature ex_gen ''q1''],
            mailbox := [\<lparr>m_to = ''a@acme.test'', m_subject = ''Please sign'',
                         m_html = ''{{SIGNATURE_URL}}'', m_signatureId = ''r1''\<rparr>]\<rparr>))"
  by (simp add: sendSignatureEmail_def ex_env_def ex_gen_def ex_quote_world_def ex_world_def
      ex_quote_def ex_signature_def ex_template_def ex_client_def quoteContactEmail_def
      quoteClient_def truthy_str_def deactivateOthers_def newSignature_def Let_def logger_def)

theorem sendSignatureEmail_one_active_witness:
  "requestSignature ex_env = None
   \<and> fst (sendSignatureEmail ex_env ex_gen ''q1'' (ex_quote_world DRAFT)) = Inr ''r1''
   \<and> activeSignatures ''q1'' (ex_quote_world DRAFT) = [ex_signature]
   \<and> activeSignatures ''q1'' (snd (sendSignatureEmail ex_env ex_gen ''q1'' (ex_quote_world DRAFT)))
       = [newSignature ex_gen ''q1'']"
proof -
  have n: "requestSignature ex_env = None" by (simp add: ex_env_def)
  have b: "activeSignatures ''q1'' (ex_quote_world DRAFT) = [ex_signature]"
    by (simp add: activeSignatures_def ex_quote_world_def ex_signature_def)
  have "activeSignatures ''q1'' (logger INFO ''Signature email sent'' ''signature''
        ((ex_quote_world DRAFT)
           \<lparr>signatures := [ex_signature\<lparr>sg_isActive := False\<rparr>, newSignature ex_gen ''q1''],
            mailbox := [\<lparr>m_to = ''a@acme.test'', m_subject = ''Please sign'',
                         m_html = ''{{SIGNATURE_URL}}'', m_signatureId = ''r1''\<rparr>]\<rparr>))
       = [newSignature ex_gen ''q1'']"
    by (rule sendSignatureEmail_one_active [THEN mp, OF conjI [OF n ex_send], THEN conjunct1])
  then show ?thesis using n b by (simp add: ex_send)
qed

subsection \<open>Quote status under the signature operations\<close>

lemma quotes_tables: "quotes (tables w) = quotes w"
  by (simp add: tables_def)

lemma tables_eq_quotes: "tables w' = tables w \<Longrightarrow> quotes w' = quotes w"
  by (metis quotes_tables)

lemma quotes_logger [simp]: "quotes (logger lvl msg cat w) = quotes w"
  by (simp add: logger_def)

lemma quotes_try_dispatch [simp]: "quotes (try_dispatch env ev pl msg cat w) = quotes w"
  by (rule tables_eq_quotes) simp

lemma quotes_sendSignatureEmail:
  "quotes (snd (sendSignatureEmail env g q w)) = quotes w"
  by (simp add: sendSignatureEmail_def Let_def split: option.splits)

lemma createSignature_quotes:
  "quotes (snd (createSignature env g qid w)) =
     (case fst (createSignature env g qid w) of
        Inl e \<Rightarrow> quotes w
      | Inr sid \<Rightarrow> setQuoteStatus qid SENT (quotes w))"
proof (cases "find (\<lambda>q. q_id q = qid) (quotes w)")
  case None
  then show ?thesis by (simp add: createSignature_def)
next
  case (Some quote)
  show ?thesis
  proof (cases "quoteContactEmail quote w")
    case None
    then show ?thesis using Some by (simp add: createSignature_def)
  next
    case (Some email)
    obtain r w1 where s: "sendSignatureEmail env g (q_id quote) w = (r, w1)"
      by (cases "sendSignatureEmail env g (q_id quote) w")
    have "quotes (snd (r, w1)) = quotes w"
      unfolding s [symmetric] by (rule quotes_sendSignatureEmail)
    then have q1: "quotes w1 = quotes w" by simp
    show ?thesis using \<open>find (\<lambda>q. q_id q = qid) (quotes w) = Some quote\<close> Some s q1
      by (cases r) (simp_all add: createSignature_def)
  qed
qed

lemma signQuote_quotes:
  "quotes (snd (signQuote env now sgid otp w)) =
     (case fst (signQuote env now sgid otp w) of
        Inl e \<Rightarrow> quotes w
      | Inr m \<Rightarrow>
          setQuoteStatus (sg_quoteId (the (find (otp_matches now sgid otp) (signatures w))))
            SIGNED (quotes w))"
  by (simp add: signQuote_def Let_def split: option.splits)

lemma advanced_refl: "advanced q q"
  by (simp add: advanced_def)

lemma advanced_trans: "advanced a b \<Longrightarrow> advanced b c \<Longrightarrow> advanced a c"
  by (auto simp: advanced_def)

lemma advanced_setQuoteStatus:
  "st = SENT \<or> st = SIGNED \<Longrightarrow> list_all2 advanced tbl (setQuoteStatus k st tbl)"
  by (induction tbl) (auto simp: setQuoteStatus_def advanced_def)

lemma advanced_list_refl: "list_all2 advanced tbl tbl"
  by (simp add: list_all2_refl advanced_refl)

lemma step_advanced:
  "list_all2 advanced (quotes w) (quotes (signature_step env w op))"
proof (cases op)
  case (CreateSignature g qid)
  show ?thesis
    unfolding CreateSignature signature_step.simps createSignature_quotes
    by (cases "fst (createSignature env g qid w)")
       (simp_all add: advanced_list_refl advanced_setQuoteStatus)
next
  case (SignQuote now sgid otp)
  show ?thesis
    unfolding SignQuote signature_step.simps signQuote_quotes
    by (cases "fst (signQuote env now sgid otp w)")
       (simp_all add: advanced_list_refl advanced_setQuoteStatus)
qed

lemma run_advanced:
  "list_all2 advanced (quotes w) (quotes (signature_run env ops w))"
proof (induction ops arbitrary: w)
  case Nil
  show ?case by (simp add: signature_run_def advanced_list_refl)
next
  case (Cons op ops)
  have a: "list_all2 advanced (quotes w) (quotes (signature_step env w op))"
    by (rule step_advanced)
  have b: "list_all2 advanced (quotes (signature_step env w op))
             (quotes (signature_run env ops (signature_step env w op)))"
    by (rule Cons.IH)
  have "list_all2 advanced (quotes w) (quotes (signature_run env ops (signature_step env w op)))"
    using a b by (rule list_all2_trans [rotated]) (rule advanced_trans)
  then show ?case by (simp add: signature_run_def)
qed

lemma advanced_not_draft:
  assumes "list_all2 advanced xs ys" and "k < length xs" and "q_status (xs ! k) \<noteq> DRAFT"
  shows "q_status (ys ! k) \<noteq> DRAFT \<and> q_id (ys ! k) = q_id (xs ! k)"
proof -
  have "advanced (xs ! k) (ys ! k)" using assms(1,2) by (rule list_all2_nthD)
  then show ?thesis using assms(3) by (auto simp: advanced_def)
qed

lemma find_setQuoteStatus:
  "find (\<lambda>q. q_id q = k) (setQuoteStatus k st tbl) =
     map_option (\<lambda>q. q\<lparr>q_status := st\<rparr>) (find (\<lambda>q. q_id q = k) tbl)"
  unfolding setQuoteStatus_def
  by (rule find_map_upd [where P = "\<lambda>q. q_id q = k"]) simp

lemma createSignature_Inr_quote:
  assumes "fst (createSignature env g qid w) = Inr sid"
  shows "\<exists>q. find (\<lambda>q. q_id q = qid) (quotes w) = Some q"
  using assms by (cases "find (\<lambda>q. q_id q = qid) (quotes w)") (simp_all add: createSignature_def)

lemma signQuote_Inr:
  assumes "fst (signQuote env now sgid otp w) = Inr m"
  shows "\<exists>s q. find (otp_matches now sgid otp) (signatures w) = Some s
           \<and> s \<in> set (signatures w) \<and> otp_matches now sgid otp s
           \<and> find (\<lambda>q. q_id q = sg_quoteId s) (quotes w) = Some q"
proof (cases "find (otp_matches now sgid otp) (signatures w)")
  case None
  then show ?thesis using assms by (simp add: signQuote_def)
next
  case (Some s)
  then have "s \<in> set (signatures w) \<and> otp_matches now sgid otp s"
    by (auto simp: find_Some_iff)
  moreover have "\<exists>q. find (\<lambda>q. q_id q = sg_quoteId s) (quotes w) = Some q"
    using assms Some
    by (cases "find (\<lambda>q. q_id q = sg_quoteId s) (quotes w)") (simp_all add: signQuote_def Let_def)
  ultimately show ?thesis using Some by blast
qed

lemma signQuote_no_match:
  assumes "\<forall>s \<in> set (signatures w). \<not> otp_matches now sgid otp s"
  shows "fst (signQuote env now sgid otp w) = Inl (BadRequestException ''Invalid or expired OTP code.'')
         \<and> quotes (snd (signQuote env now sgid otp w)) = quotes w"
proof -
  have "find (otp_matches now sgid otp) (signatures w) = None"
    using assms by (simp add: find_None_iff)
  then show ?thesis by (simp add: signQuote_def)
qed


text \<open>
  C3. \<^verbatim>\<open>createSignature\<close>, when it succeeds, sets the status of its quote to
  \<^verbatim>\<open>SENT\<close>, whatever the status was; \<^verbatim>\<open>signQuote\<close> succeeds only for an active signature
  with the given id, the matching and unused OTP code and an expiry not before the
  current time, and then sets the status of that signature's quote to \<^verbatim>\<open>SIGNED\<close>;
  without such a signature it throws and no quote changes. Over any sequence of the two
  operations every quote keeps its place and its other fields, and its status is the one
  it had, \<^verbatim>\<open>SENT\<close> or \<^verbatim>\<open>SIGNED\<close>: a quote that has left \<^verbatim>\<open>DRAFT\<close> is never moved
  back to \<^verbatim>\<open>DRAFT\<close>.
\<close>

theorem signature_operations_status:
  "(\<forall>sid. fst (createSignature env g qid w) = Inr sid \<longrightarrow>
      (\<exists>q. find (\<lambda>q. q_id q = qid) (quotes w) = Some q
         \<and> find (\<lambda>q. q_id q = qid) (quotes (snd (createSignature env g qid w)))
             = Some (q\<lparr>q_status := SENT\<rparr>))
      \<and> quotes (snd (createSignature env g qid w)) = setQuoteStatus qid SENT (quotes w))
   \<and> (\<forall>m. fst (signQuote env now sgid otp w) = Inr m \<longrightarrow>
      (\<exists>s q. s \<in> set (signatures w) \<and> otp_matches now sgid otp s
         \<and> find (\<lambda>q. q_id q = sg_quoteId s) (quotes w) = Some q
         \<and> find (\<lambda>q. q_id q = sg_quoteId s) (quotes (snd (signQuote env now sgid otp w)))
             = Some (q\<lparr>q_status := SIGNED\<rparr>)
         \<and> quotes (snd (signQuote env now sgid otp w))
             = setQuoteStatus (sg_quoteId s) SIGNED (quotes w)))
   \<and> ((\<forall>s \<in> set (signatures w). \<not> otp_matches now sgid otp s) \<longrightarrow>
        fst (signQuote env now sgid otp w) = Inl (BadRequestException ''Invalid or expired OTP code.'')
      \<and> quotes (snd (signQuote env now sgid otp w)) = quotes w)
   \<and> list_all2 advanced (quotes w) (quotes (signature_run env ops w))
   \<and> (\<forall>k < length (quotes w). q_status (quotes w ! k) \<noteq> DRAFT \<longrightarrow>
         q_status (quotes (signature_run env ops w) ! k) \<noteq> DRAFT
       \<and> q_id (quotes (signature_run env ops w) ! k) = q_id (quotes w ! k))"
proof (intro conjI allI impI)
  fix sid assume a: "fst (createSignature env g qid w) = Inr sid"
  have q: "quotes (snd (createSignature env g qid w)) = setQuoteStatus qid SENT (quotes w)"
    unfolding createSignature_quotes a by simp
  then show "quotes (snd (createSignature env g qid w)) = setQuoteStatus qid SENT (quotes w)" .
  obtain x where x: "find (\<lambda>q. q_id q = qid) (quotes w) = Some x"
    using createSignature_Inr_quote [OF a] by blast
  show "\<exists>q. find (\<lambda>q. q_id q = qid) (quotes w) = Some q
         \<and> find (\<lambda>q. q_id q = qid) (quotes (snd (createSignature env g qid w)))
             = Some (q\<lparr>q_status := SENT\<rparr>)"
    unfolding q find_setQuoteStatus x by simp
next
  fix m assume a: "fst (signQuote env now sgid otp w) = Inr m"
  obtain s q where f: "find (otp_matches now sgid otp) (signatures w) = Some s"
    and s: "s \<in> set (signatures w)" "otp_matches now sgid otp s"
    and q: "find (\<lambda>q. q_id q = sg_quoteId s) (quotes w) = Some q"
    using signQuote_Inr [OF a] by blast
  have e: "quotes (snd (signQuote env now sgid otp w))
             = setQuoteStatus (sg_quoteId s) SIGNED (quotes w)"
    unfolding signQuote_quotes a f by simp
  have "find (\<lambda>q. q_id q = sg_quoteId s) (quotes (snd (signQuote env now sgid otp w)))
             = Some (q\<lparr>q_status := SIGNED\<rparr>)"
    unfolding e find_setQuoteStatus q by simp
  with s q e show "\<exists>s q. s \<in> set (signatures w) \<and> otp_matches now sgid otp s
         \<and> find (\<lambda>q. q_id q = sg_quoteId s) (quotes w) = Some q
         \<and> find (\<lambda>q. q_id q = sg_quoteId s) (quotes (snd (signQuote env now sgid otp w)))
             = Some (q\<lparr>q_status := SIGNED\<rparr>)
         \<and> quotes (snd (signQuote env now sgid otp w))
             = setQuoteStatus (sg_quoteId s) SIGNED (quotes w)"
    by blast
next
  assume a: "\<forall>s \<in> set (signatures w). \<not> otp_matches now sgid otp s"
  show "fst (signQuote env now sgid otp w) = Inl (BadRequestException ''Invalid or expired OTP code.'')"
    using signQuote_no_match [where env = env, OF a] by simp
  show "quotes (snd (signQuote env now sgid otp w)) = quotes w"
    using signQuote_no_match [where env = env, OF a] by simp
next
  show "list_all2 advanced (quotes w) (quotes (signature_run env ops w))"
    by (rule run_advanced)
next
  fix k assume k: "k < length (quotes w)" and d: "q_status (quotes w ! k) \<noteq> DRAFT"
  show "q_status (quotes (signature_run env ops w) ! k) \<noteq> DRAFT"
    using advanced_not_draft [OF run_advanced [of w env ops] k d] by simp
  show "q_id (quotes (signature_run env ops w) ! k) = q_id (quotes w ! k)"
    using advanced_not_draft [OF run_advanced [of w env ops] k d] by simp
qed

lemmas ex_sig_defs = createSignature_def signQuote_def sendSignatureEmail_def ex_env_def
  ex_gen_def ex_quote_world_def ex_world_def ex_quote_def ex_signature_def ex_template_def
  ex_client_def quoteContactEmail_def quoteClient_def truthy_str_def deactivateOthers_def
  newSignature_def Let_def logger_def setQuoteStatus_def try_dispatch_def dispatch_def
  send_def otp_matches_def signature_run_def

theorem signed_quote_back_to_sent:
  "map q_status (quotes (ex_quote_world SIGNED)) = [SIGNED]
   \<and> fst (createSignature ex_env ex_gen ''q1'' (ex_quote_world SIGNED)) = Inr ''r1''
   \<and> map q_status (quotes (signature_run ex_env [CreateSignature ex_gen ''q1'']
        (ex_quote_world SIGNED))) = [SENT]"
  by (simp add: ex_sig_defs)

theorem signature_operations_status_witness:
  "fst (createSignature ex_env ex_gen ''q1'' (ex_quote_world DRAFT)) = Inr ''r1''
   \<and> map q_status (quotes (snd (createSignature ex_env ex_gen ''q1'' (ex_quote_world DRAFT)))) = [SENT]
   \<and> fst (signQuote ex_env 6000 ''s0'' ''12345678'' (ex_quote_world SENT))
       = Inr ''Quote signed successfully.''
   \<and> map q_status (quotes (snd (signQuote ex_env 6000 ''s0'' ''12345678'' (ex_quote_world SENT))))
       = [SIGNED]
   \<and> fst (signQuote ex_env 6000 ''s0'' ''00000000'' (ex_quote_world SENT))
       = Inl (BadRequestException ''Invalid or expired OTP code.'')
   \<and> q_status (quotes (signature_run ex_env
         [CreateSignature ex_gen ''q1'', SignQuote 6000 ''s0'' ''12345678'']
         (ex_quote_world SENT)) ! 0) \<noteq> DRAFT"
proof -
  let ?ops = "[CreateSignature ex_gen ''q1'', SignQuote 6000 ''s0'' ''12345678'']"
  have c: "fst (createSignature ex_env ex_gen ''q1'' (ex_quote_world DRAFT)) = Inr ''r1''"
    by (simp add: ex_sig_defs)
  have "quotes (snd (createSignature ex_env ex_gen ''q1'' (ex_quote_world DRAFT)))
          = setQuoteStatus ''q1'' SENT (quotes (ex_quote_world DRAFT))"
    by (rule signature_operations_status [of ex_env ex_gen "''q1''" "ex_quote_world DRAFT"
          6000 "''s0''" "''12345678''" ?ops,
          THEN conjunct1, THEN spec, THEN mp, OF c, THEN conjunct2])
  then have c': "map q_status (quotes (snd (createSignature ex_env ex_gen ''q1'' (ex_quote_world DRAFT)))) = [SENT]"
    by (simp add: setQuoteStatus_def ex_quote_world_def ex_quote_def)
  have s: "fst (signQuote ex_env 6000 ''s0'' ''12345678'' (ex_quote_world SENT))
       = Inr ''Quote signed successfully.''"
    by (simp add: ex_sig_defs)
  have s': "map q_status (quotes (snd (signQuote ex_env 6000 ''s0'' ''12345678'' (ex_quote_world SENT))))
       = [SIGNED]"
    by (simp add: ex_sig_defs)
  have n: "\<forall>s \<in> set (signatures (ex_quote_world SENT)). \<not> otp_matches 6000 ''s0'' ''00000000'' s"
    by (simp add: ex_quote_world_def ex_signature_def otp_matches_def)
  have n': "fst (signQuote ex_env 6000 ''s0'' ''00000000'' (ex_quote_world SENT))
       = Inl (BadRequestException ''Invalid or expired OTP code.'')"
    by (rule signature_operations_status [of ex_env ex_gen "''q1''" "ex_quote_world SENT"
          6000 "''s0''" "''00000000''" ?ops,
          THEN conjunct2, THEN conjunct2, THEN conjunct1, THEN mp, OF n, THEN conjunct1])
  have k: "0 < length (quotes (ex_quote_world SENT))" by (simp add: ex_quote_world_def)
  have d: "q_status (quotes (ex_quote_world SENT) ! 0) \<noteq> DRAFT"
    by (simp add: ex_quote_world_def ex_quote_def)
  have r: "q_status (quotes (signature_run ex_env ?ops (ex_quote_world SENT)) ! 0) \<noteq> DRAFT"
    by (rule signature_operations_status [of ex_env ex_gen "''q1''" "ex_quote_world SENT"
          6000 "''s0''" "''00000000''" ?ops,
          THEN conjunct2, THEN conjunct2, THEN conjunct2, THEN conjunct2,
          THEN spec, THEN mp, OF k, THEN mp, OF d, THEN conjunct1])
  from c c' s s' n' r show ?thesis by simp
qed

subsection \<open>Invoice totals\<close>














lemma createInvoice_Inr:
  assumes "fst (createInvoice env g body w) = Inr invoice"
  shows "\<exists>company client. findFirst (companies w) = Some company
           \<and> find (\<lambda>c. cl_id c = dto_clientId body) (clients w) = Some client
           \<and> g_id g \<notin> set (map inv_id (invoices w))
           \<and> invoice = newInvoice g body client company
           \<and> snd (createInvoice env g body w) =
               try_dispatch env INVOICE_CREATED (InvoicePayload invoice (Some client) (Some company))
                 ''Failed to dispatch INVOICE_CREATED webhook'' ''invoice''
                 (logger INFO ''Invoice created'' ''invoice'' (w\<lparr>invoices := invoices w @ [invoice]\<rparr>))"
  using assms
  by (auto simp: createInvoice_def Let_def split: option.splits if_splits)


lemma inv_id_editedInvoice [simp]: "inv_id (editedInvoice g body client company i) = inv_id i"
  by (simp add: editedInvoice_def Let_def)







subsection \<open>Creation of an invoice: validation first, webhook last\<close>

lemma outbox_dispatch:
  "\<exists>hooks. outbox (snd (dispatch env ev pl w)) = outbox w @ map (delivery_of env ev pl) hooks"
proof -
  let ?hooks = "filter (\<lambda>h. ev \<in> set (wh_events h) \<and>
                     (case payload_companyId pl of None \<Rightarrow> True
                      | Some c \<Rightarrow> wh_companyId h = Some c)) (webhooks w)"
  obtain r w1 where s: "send env ?hooks ev pl w = (r, w1)" by (cases "send env ?hooks ev pl w")
  have "outbox (snd (r, w1)) = outbox w @ map (delivery_of env ev pl) ?hooks"
    unfolding s [symmetric] by (rule send_outbox)
  then have "outbox w1 = outbox w @ map (delivery_of env ev pl) ?hooks" by simp
  then have "outbox (snd (dispatch env ev pl w)) = outbox w @ map (delivery_of env ev pl) ?hooks"
    by (cases r) (simp_all add: dispatch_def s)
  then show ?thesis by blast
qed

lemma try_dispatch_cases:
  "(\<forall>e. fst (dispatch env ev pl w) \<noteq> Inl e) \<and> try_dispatch env ev pl msg cat w = snd (dispatch env ev pl w)
   \<or> (\<exists>e. fst (dispatch env ev pl w) = Inl e) \<and>
       try_dispatch env ev pl msg cat w = logger ERROR msg cat (snd (dispatch env ev pl w))"
proof -
  obtain r w1 where d: "dispatch env ev pl w = (r, w1)" by (cases "dispatch env ev pl w")
  show ?thesis by (cases r) (simp_all add: try_dispatch_def d)
qed

lemma outbox_try_dispatch:
  "\<exists>hooks. outbox (try_dispatch env ev pl msg cat w) = outbox w @ map (delivery_of env ev pl) hooks"
  using try_dispatch_cases [of env ev pl w msg cat] outbox_dispatch [of env ev pl w]
  by auto

lemma try_dispatch_failure_logged:
  assumes "fst (dispatch env ev pl w) = Inl e"
  shows "last (logs (try_dispatch env ev pl msg cat w)) =
           \<lparr>lg_level = ERROR, lg_message = msg, lg_category = cat\<rparr>"
  using try_dispatch_cases [of env ev pl w msg cat] assms by (auto simp: logger_def)

lemma createInvoice_Inl:
  assumes "fst (createInvoice env g body w) = Inl e"
  shows "tables (snd (createInvoice env g body w)) = tables w
         \<and> outbox (snd (createInvoice env g body w)) = outbox w"
  using assms
  by (auto simp: createInvoice_def Let_def split: option.splits if_splits)

lemma createInvoice_env:
  "fst (createInvoice env' g body w) = fst (createInvoice env g body w)
   \<and> tables (snd (createInvoice env' g body w)) = tables (snd (createInvoice env g body w))"
  by (simp add: createInvoice_def Let_def split: option.splits)

text \<open>
  C5. \<^verbatim>\<open>createInvoice\<close> validates before it writes: without a company, or with a
  \<^verbatim>\<open>clientId\<close> that finds no client, it throws \<^verbatim>\<open>BadRequestException\<close> after logging
  the error, and whenever it throws no record of the database has changed and no webhook
  delivery was attempted. When it succeeds, the webhook dispatch runs on the state that
  already holds the new invoice, every delivery it attempts is an \<^verbatim>\<open>INVOICE_CREATED\<close>
  delivery carrying that invoice, a failed dispatch ends in the error log entry of the
  \<^verbatim>\<open>catch\<close>, and neither the returned invoice nor the records of the database depend on
  what the webhook drivers do.
\<close>

theorem createInvoice_validates_then_dispatches:
  "(findFirst (companies w) = None \<longrightarrow>
      createInvoice env g body w =
        (Inl (BadRequestException ''No company found. Please create a company first.''),
         logger ERROR ''No company found. Please create a company first.'' ''invoice'' w))
   \<and> (findFirst (companies w) \<noteq> None
        \<and> find (\<lambda>c. cl_id c = dto_clientId body) (clients w) = None \<longrightarrow>
      createInvoice env g body w =
        (Inl (BadRequestException ''Client not found''),
         logger ERROR ''Client not found'' ''invoice'' w))
   \<and> (\<forall>e. fst (createInvoice env g body w) = Inl e \<longrightarrow>
        tables (snd (createInvoice env g body w)) = tables w
      \<and> outbox (snd (createInvoice env g body w)) = outbox w)
   \<and> (\<forall>invoice. fst (createInvoice env g body w) = Inr invoice \<longrightarrow>
        (\<exists>client company.
           snd (createInvoice env g body w) =
             try_dispatch env INVOICE_CREATED (InvoicePayload invoice (Some client) (Some company))
               ''Failed to dispatch INVOICE_CREATED webhook'' ''invoice''
               (logger INFO ''Invoice created'' ''invoice'' (w\<lparr>invoices := invoices w @ [invoice]\<rparr>))
         \<and> (\<forall>d \<in> set (drop (length (outbox w)) (outbox (snd (createInvoice env g body w)))).
               dl_event d = INVOICE_CREATED
             \<and> dl_payload d = InvoicePayload invoice (Some client) (Some company))
         \<and> ((\<exists>e. fst (dispatch env INVOICE_CREATED
                         (InvoicePayload invoice (Some client) (Some company))
                         (logger INFO ''Invoice created'' ''invoice''
                            (w\<lparr>invoices := invoices w @ [invoice]\<rparr>))) = Inl e) \<longrightarrow>
             last (logs (snd (createInvoice env g body w))) =
               \<lparr>lg_level = ERROR, lg_message = ''Failed to dispatch INVOICE_CREATED webhook'',
                lg_category = ''invoice''\<rparr>))
      \<and> tables (snd (createInvoice env g body w)) = tables (w\<lparr>invoices := invoices w @ [invoice]\<rparr>)
      \<and> fst (createInvoice env' g body w) = Inr invoice
      \<and> tables (snd (createInvoice env' g body w)) = tables (snd (createInvoice env g body w)))"
proof (intro conjI allI impI)
  assume "findFirst (companies w) = None"
  then show "createInvoice env g body w =
        (Inl (BadRequestException ''No company found. Please create a company first.''),
         logger ERROR ''No company found. Please create a company first.'' ''invoice'' w)"
    by (simp add: createInvoice_def)
next
  assume "findFirst (companies w) \<noteq> None
        \<and> find (\<lambda>c. cl_id c = dto_clientId body) (clients w) = None"
  then show "createInvoice env g body w =
        (Inl (BadRequestException ''Client not found''),
         logger ERROR ''Client not found'' ''invoice'' w)"
    by (auto simp: createInvoice_def)
next
  fix e assume a: "fst (createInvoice env g body w) = Inl e"
  show "tables (snd (createInvoice env g body w)) = tables w"
    using createInvoice_Inl [OF a] by simp
  show "outbox (snd (createInvoice env g body w)) = outbox w"
    using createInvoice_Inl [OF a] by simp
next
  fix invoice assume a: "fst (createInvoice env g body w) = Inr invoice"
  from createInvoice_Inr [OF a] obtain company client where
    s: "snd (createInvoice env g body w) =
               try_dispatch env INVOICE_CREATED (InvoicePayload invoice (Some client) (Some company))
                 ''Failed to dispatch INVOICE_CREATED webhook'' ''invoice''
                 (logger INFO ''Invoice created'' ''invoice'' (w\<lparr>invoices := invoices w @ [invoice]\<rparr>))"
    by blast
  let ?pl = "InvoicePayload invoice (Some client) (Some company)"
  let ?w0 = "logger INFO ''Invoice created'' ''invoice'' (w\<lparr>invoices := invoices w @ [invoice]\<rparr>)"
  obtain hooks where
    o: "outbox (snd (createInvoice env g body w)) =
          outbox ?w0 @ map (delivery_of env INVOICE_CREATED ?pl) hooks"
    unfolding s using outbox_try_dispatch by blast
  have d: "\<forall>d \<in> set (drop (length (outbox w)) (outbox (snd (createInvoice env g body w)))).
               dl_event d = INVOICE_CREATED \<and> dl_payload d = ?pl"
    unfolding o by (auto simp: delivery_of_def)
  have l: "(\<exists>e. fst (dispatch env INVOICE_CREATED ?pl ?w0) = Inl e) \<longrightarrow>
             last (logs (snd (createInvoice env g body w))) =
               \<lparr>lg_level = ERROR, lg_message = ''Failed to dispatch INVOICE_CREATED webhook'',
                lg_category = ''invoice''\<rparr>"
    unfolding s using try_dispatch_failure_logged by blast
  show "\<exists>client company.
           snd (createInvoice env g body w) =
             try_dispatch env INVOICE_CREATED (InvoicePayload invoice (Some client) (Some company))
               ''Failed to dispatch INVOICE_CREATED webhook'' ''invoice''
               (logger INFO ''Invoice created'' ''invoice'' (w\<lparr>invoices := invoices w @ [invoice]\<rparr>))
         \<and> (\<forall>d \<in> set (drop (length (outbox w)) (outbox (snd (createInvoice env g body w)))).
               dl_event d = INVOICE_CREATED
             \<and> dl_payload d = InvoicePayload invoice (Some client) (Some company))
         \<and> ((\<exists>e. fst (dispatch env INVOICE_CREATED
                         (InvoicePayload invoice (Some client) (Some company))
                         (logger INFO ''Invoice created'' ''invoice''
                            (w\<lparr>invoices := invoices w @ [invoice]\<rparr>))) = Inl e) \<longrightarrow>
             last (logs (snd (createInvoice env g body w))) =
               \<lparr>lg_level = ERROR, lg_message = ''Failed to dispatch INVOICE_CREATED webhook'',
                lg_category = ''invoice''\<rparr>)"
    using s d l by blast
  show "tables (snd (createInvoice env g body w)) = tables (w\<lparr>invoices := invoices w @ [invoice]\<rparr>)"
    unfolding s by simp
  show "fst (createInvoice env' g body w) = Inr invoice"
    using createInvoice_env [of env' g body w env] a by simp
  show "tables (snd (createInvoice env' g body w)) = tables (snd (createInvoice env g body w))"
    using createInvoice_env [of env' g body w env] by simp
qed


theorem createInvoice_validates_then_dispatches_witness:
  "fst (createInvoice ex_env ex_gen ex_invoice_body (ex_world\<lparr>companies := []\<rparr>))
     = Inl (BadRequestException ''No company found. Please create a company first.'')
   \<and> invoices (snd (createInvoice ex_env ex_gen ex_invoice_body (ex_world\<lparr>companies := []\<rparr>))) = []
   \<and> fst (createInvoice ex_env ex_gen (ex_invoice_body\<lparr>dto_clientId := ''zz''\<rparr>) ex_world)
     = Inl (BadRequestException ''Client not found'')
   \<and> fst (createInvoice ex_env ex_gen ex_invoice_body
            (ex_world\<lparr>webhooks := [ex_hook ''SLACK'' ''down'']\<rparr>))
     = Inr (newInvoice ex_gen ex_invoice_body ex_client ex_company)
   \<and> invoices (snd (createInvoice ex_env ex_gen ex_invoice_body
            (ex_world\<lparr>webhooks := [ex_hook ''SLACK'' ''down'']\<rparr>)))
     = [newInvoice ex_gen ex_invoice_body ex_client ex_company]
   \<and> map dl_url (outbox (snd (createInvoice ex_env ex_gen ex_invoice_body
            (ex_world\<lparr>webhooks := [ex_hook ''SLACK'' ''down'']\<rparr>)))) = [''down'']
   \<and> last (logs (snd (createInvoice ex_env ex_gen ex_invoice_body
            (ex_world\<lparr>webhooks := [ex_hook ''SLACK'' ''down'']\<rparr>))))
     = \<lparr>lg_level = ERROR, lg_message = ''Failed to dispatch INVOICE_CREATED webhook'',
        lg_category = ''invoice''\<rparr>"
proof -
  let ?w0 = "ex_world\<lparr>companies := []\<rparr>"
  let ?wd = "ex_world\<lparr>webhooks := [ex_hook ''SLACK'' ''down'']\<rparr>"
  let ?i = "newInvoice ex_gen ex_invoice_body ex_client ex_company"
  note thm0 = createInvoice_validates_then_dispatches [of ?w0 ex_env ex_gen ex_invoice_body ex_env]
  note thmd = createInvoice_validates_then_dispatches [of ?wd ex_env ex_gen ex_invoice_body ex_env]
  have n: "findFirst (companies ?w0) = None" by (simp add: findFirst_def)
  have a: "createInvoice ex_env ex_gen ex_invoice_body ?w0 =
        (Inl (BadRequestException ''No company found. Please create a company first.''),
         logger ERROR ''No company found. Please create a company first.'' ''invoice'' ?w0)"
    by (rule thm0 [THEN conjunct1, THEN mp, OF n])
  have a1: "fst (createInvoice ex_env ex_gen ex_invoice_body ?w0)
     = Inl (BadRequestException ''No company found. Please create a company first.'')"
    unfolding a by simp
  have a2: "invoices (snd (createInvoice ex_env ex_gen ex_invoice_body ?w0)) = []"
    unfolding a by (simp add: logger_def ex_world_def)
  have b: "fst (createInvoice ex_env ex_gen (ex_invoice_body\<lparr>dto_clientId := ''zz''\<rparr>) ex_world)
     = Inl (BadRequestException ''Client not found'')"
    by (simp add: createInvoice_def findFirst_def ex_world_def ex_client_def)
  have c: "fst (createInvoice ex_env ex_gen ex_invoice_body ?wd) = Inr ?i"
    by (simp add: createInvoice_def findFirst_def ex_world_def ex_invoice_body_def ex_client_def
        ex_gen_def Let_def)
  have "tables (snd (createInvoice ex_env ex_gen ex_invoice_body ?wd))
          = tables (?wd\<lparr>invoices := invoices ?wd @ [?i]\<rparr>)"
    by (rule thmd [THEN conjunct2, THEN conjunct2, THEN conjunct2, THEN spec, THEN mp, OF c,
          THEN conjunct2, THEN conjunct1])
  from tables_eq_invoices [OF this]
  have d: "invoices (snd (createInvoice ex_env ex_gen ex_invoice_body ?wd)) = [?i]"
    by (simp add: ex_world_def)
  have s: "snd (createInvoice ex_env ex_gen ex_invoice_body ?wd) =
      try_dispatch ex_env INVOICE_CREATED (InvoicePayload ?i (Some ex_client) (Some ex_company))
        ''Failed to dispatch INVOICE_CREATED webhook'' ''invoice''
        (logger INFO ''Invoice created'' ''invoice'' (?wd\<lparr>invoices := invoices ?wd @ [?i]\<rparr>))"
    by (simp add: createInvoice_def findFirst_def ex_world_def ex_invoice_body_def ex_client_def
        ex_gen_def Let_def)
  have e: "dispatch ex_env INVOICE_CREATED (InvoicePayload ?i (Some ex_client) (Some ex_company))
        (logger INFO ''Invoice created'' ''invoice'' (?wd\<lparr>invoices := invoices ?wd @ [?i]\<rparr>))
      = (Inl (WebhookError ''unreachable''),
         logger ERROR ''Error dispatching webhook'' ''webhook-dispatcher''
           ((logger INFO ''Invoice created'' ''invoice'' (?wd\<lparr>invoices := invoices ?wd @ [?i]\<rparr>))
              \<lparr>outbox := [\<lparr>dl_driver = SlackDriver, dl_url = ''down'', dl_event = INVOICE_CREATED,
                            dl_payload = InvoicePayload ?i (Some ex_client) (Some ex_company),
                            dl_secret = None\<rparr>]\<rparr>))"
    by (simp add: dispatch_def send_def delivery_of_def getDriver_def drivers_def Let_def
        ex_env_def ex_hook_def ex_world_def ex_company_def logger_def)
  have o: "map dl_url (outbox (snd (createInvoice ex_env ex_gen ex_invoice_body ?wd))) = [''down'']"
    unfolding s try_dispatch_def e by (simp add: logger_def)
  have l: "last (logs (snd (createInvoice ex_env ex_gen ex_invoice_body ?wd)))
     = \<lparr>lg_level = ERROR, lg_message = ''Failed to dispatch INVOICE_CREATED webhook'',
        lg_category = ''invoice''\<rparr>"
    unfolding s try_dispatch_def e by (simp add: logger_def)
  from a1 a2 b c d o l show ?thesis by simp
qed

subsection \<open>Monthly statistics\<close>










































end
